theory Spec2Isabelle
  imports Complex_Main "HOL-Library.AList"
begin

section \<open>Python values, exceptions and keyword arguments\<close>

text \<open>
  The knowledge-graph query engine of \<^verbatim>\<open>llama_index\<close> and the two mock language-model
  components are embedded as HOL functions. An exception is a value of type \<open>error\<close>, and a
  call that may raise returns \<open>error + 'a\<close> with \<open>Inl\<close> for the exception. \<open>Raised\<close> stands for an
  exception thrown by an external collaborator (graph store, language model, response
  synthesizer); the other constructors are the built-in exceptions the modelled code
  raises itself.
\<close>

datatype error =
    AssertionError string
  | KeyError string
  | ValueError string
  | TypeError string
  | NotImplementedError string
  | Raised string

text \<open>Keyword-argument values: the strings and integers the prompts are filled with.\<close>

datatype pyval = PyStr string | PyInt int

text \<open>
  A \<^verbatim>\<open>dict\<close> with string keys, in insertion order. \<open>map_of\<close> reads a key,
  \<open>AList.update\<close> is Python's item assignment (replace in place, or append).
\<close>

type_synonym kwargs = "(string \<times> pyval) list"

fun str_nat :: "nat \<Rightarrow> string" where
  "str_nat n =
     (if n < 10 then [''0123456789'' ! n]
      else str_nat (n div 10) @ [''0123456789'' ! (n mod 10)])"

declare str_nat.simps [simp del]

definition str_int :: "int \<Rightarrow> string" where
  "str_int i = (if i < 0 then ''-'' @ str_nat (nat (- i)) else str_nat (nat i))"

text \<open>Python's \<^verbatim>\<open>str(v)\<close> on the two kinds of value.\<close>

fun py_str :: "pyval \<Rightarrow> string" where
  "py_str (PyStr s) = s"
| "py_str (PyInt i) = str_int i"

text \<open>Python's \<^verbatim>\<open>sep.join(xs)\<close>.\<close>

fun join :: "string \<Rightarrow> string list \<Rightarrow> string" where
  "join sep [] = []"
| "join sep [x] = x"
| "join sep (x # y # ys) = x @ sep @ join sep (y # ys)"

text \<open>Python's \<^verbatim>\<open>d.update(other)\<close>: the items of \<open>other\<close> are assigned in order.\<close>

definition dict_update :: "kwargs \<Rightarrow> kwargs \<Rightarrow> kwargs" where
  "dict_update d other = foldl (\<lambda>acc (k, v). AList.update k v acc) d other"

section \<open>Prompts\<close>

text \<open>
  \<^verbatim>\<open>PromptType\<close> is declared in \<^verbatim>\<open>llama_index.prompts.prompt_type\<close>. The members the
  modelled code names are constructors of their own; \<open>OtherPromptType\<close> carries the value of
  any further member of the enumeration.
\<close>

datatype PromptType =
    SUMMARY
  | TREE_INSERT
  | TREE_SELECT
  | TREE_SELECT_MULTIPLE
  | REFINE
  | QUESTION_ANSWER
  | KEYWORD_EXTRACT
  | QUERY_KEYWORD_EXTRACT
  | KNOWLEDGE_TRIPLET_EXTRACT
  | CUSTOM
  | TEXT_TO_GRAPH_QUERY
  | OtherPromptType string

record Prompt =
  template :: string
  prompt_type :: PromptType
  partial_dict :: kwargs

fun prepend :: "string \<Rightarrow> error + string \<Rightarrow> error + string" where
  "prepend s (Inl e) = Inl e"
| "prepend s (Inr t) = Inr (s @ t)"

text \<open>
  Modelled from the spec: \<^verbatim>\<open>Prompt.format\<close> (\<^verbatim>\<open>llama_index.prompts.base\<close>) is the
  prompt-template substitution mechanism, an external collaborator whose code is not part of
  the modelled files. The spec describes a prompt template as an immutable text pattern with
  named substitution slots, and names a missing substitution key as the one failure of
  filling it. \<open>vformat\<close> scans the template as Python's \<^verbatim>\<open>str.format\<close> does for named
  fields: \<^verbatim>\<open>{name}\<close> is replaced by \<^verbatim>\<open>str\<close> of the keyword argument \<open>name\<close>
  (a \<open>KeyError\<close> when there is none), \<^verbatim>\<open>{{\<close> and \<^verbatim>\<open>}}\<close> stand for one brace, a
  lone or unclosed brace is a \<open>ValueError\<close>. An inserted value is not scanned again.
  Conversions and format specifications inside a field are not modelled. The second
  argument is the field name read so far (\<open>None\<close> outside a field).
\<close>

fun vformat :: "kwargs \<Rightarrow> string option \<Rightarrow> string \<Rightarrow> error + string" where
  "vformat kw None [] = Inr []"
| "vformat kw None [c] =
     (if c = CHR ''{'' \<or> c = CHR ''}'' then Inl (ValueError ''single brace in format string'')
      else Inr [c])"
| "vformat kw None (c # d # cs) =
     (if c = CHR ''{'' then
        (if d = CHR ''{'' then prepend [c] (vformat kw None cs)
         else vformat kw (Some []) (d # cs))
      else if c = CHR ''}'' then
        (if d = CHR ''}'' then prepend [c] (vformat kw None cs)
         else Inl (ValueError ''single brace in format string''))
      else prepend [c] (vformat kw None (d # cs)))"
| "vformat kw (Some name) [] = Inl (ValueError ''unclosed field in format string'')"
| "vformat kw (Some name) (c # cs) =
     (if c = CHR ''}'' then
        (case map_of kw name of
           None \<Rightarrow> Inl (KeyError name)
         | Some v \<Rightarrow> prepend (py_str v) (vformat kw None cs))
      else vformat kw (Some (name @ [c])) cs)"

text \<open>
  \<^verbatim>\<open>prompt.format(**kwargs)\<close>: the prompt's partial substitutions are merged into the
  keyword arguments, then the template is filled.
\<close>

definition Prompt_format :: "Prompt \<Rightarrow> kwargs \<Rightarrow> error + string" where
  "Prompt_format prompt kw = vformat (dict_update kw (partial_dict prompt)) None (template prompt)"

section \<open>The mock language model (\<^verbatim>\<open>llms/mock.py\<close>)\<close>

text \<open>
  \<^verbatim>\<open>MockLLM\<close> holds \<^verbatim>\<open>max_tokens: Optional[int]\<close>. \<^verbatim>\<open>_generate_text(length)\<close> joins one
  \<^verbatim>\<open>"text"\<close> per element of \<^verbatim>\<open>range(length)\<close> (empty for a length below one).
  \<^verbatim>\<open>complete\<close> tests \<^verbatim>\<open>self.max_tokens\<close> for truth: \<^verbatim>\<open>None\<close> and \<^verbatim>\<open>0\<close> are both false.
\<close>

record MockLLM =
  max_tokens :: "int option"

record CompletionResponse =
  completion_text :: string

definition generate_text :: "int \<Rightarrow> string" where
  "generate_text n = join '' '' (map (\<lambda>_. ''text'') [0..<nat n])"

definition complete :: "MockLLM \<Rightarrow> string \<Rightarrow> CompletionResponse" where
  "complete self prompt =
     (let response_text =
        (case max_tokens self of
           None \<Rightarrow> prompt
         | Some n \<Rightarrow> if n \<noteq> 0 then generate_text n else prompt)
      in \<lparr>completion_text = response_text\<rparr>)"

section \<open>The callback manager\<close>

text \<open>
  \<^verbatim>\<open>CBEventType\<close> and \<^verbatim>\<open>EventPayload\<close> are declared in \<^verbatim>\<open>llama_index.callbacks.schema\<close>;
  the members below are the ones the modelled code names. A payload is a \<^verbatim>\<open>dict\<close> whose keys
  are \<^verbatim>\<open>EventPayload\<close> members or plain strings and whose values are strings, integers or a
  prompt object.
\<close>

datatype CBEventType = QUERY | RETRIEVE | LLM

datatype EventPayload = QUERY_STR | RESPONSE | TEMPLATE | PROMPT

datatype payload_key = Ev EventPayload | Key string

datatype payload_val = Val pyval | TemplateVal Prompt

type_synonym payload = "(payload_key \<times> payload_val) list"

text \<open>
  \<^verbatim>\<open>EventPayload\<close> is an enumeration of strings: a member is equal to its value and hashes
  like it, so in a payload a member and the plain string of its value are one key.
  \<open>payload_setitem\<close> is the item assignment \<^verbatim>\<open>d[k] = v\<close> of such a dictionary: an
  entry with an equal key keeps its key and takes the new value, otherwise the entry is
  appended.
\<close>

fun EventPayload_value :: "EventPayload \<Rightarrow> string" where
  "EventPayload_value QUERY_STR = ''query_str''"
| "EventPayload_value RESPONSE = ''response''"
| "EventPayload_value TEMPLATE = ''template''"
| "EventPayload_value PROMPT = ''formatted_prompt''"

fun key_text :: "payload_key \<Rightarrow> string" where
  "key_text (Ev m) = EventPayload_value m"
| "key_text (Key k) = k"

fun payload_setitem :: "payload \<Rightarrow> payload_key \<Rightarrow> payload_val \<Rightarrow> payload" where
  "payload_setitem [] k v = [(k, v)]"
| "payload_setitem ((k', v') # d) k v =
     (if key_text k' = key_text k then (k', v) # d else (k', v') # payload_setitem d k v)"

text \<open>
  Modelled from the spec: \<^verbatim>\<open>CallbackManager\<close> (\<^verbatim>\<open>llama_index.callbacks.base\<close>) is not among
  the modelled files. The spec gives the event sink as
  \<^verbatim>\<open>onEventStart(kind, payload) -> id\<close> and \<^verbatim>\<open>onEventEnd(kind, payload, id) -> void\<close>, with
  the id of a span generated when it is opened. The model is a recording sink:
  \<open>on_event_start\<close> appends an \<open>EventStart\<close> entry that holds the id it generates and
  returns, \<open>on_event_end\<close> appends an \<open>EventEnd\<close> entry that holds the id it is given. A
  counter stands for the generated identifiers.
\<close>

datatype CBEvent =
    EventStart CBEventType payload nat
  | EventEnd CBEventType payload nat

record CallbackManager =
  events :: "CBEvent list"
  next_id :: nat

definition on_event_start ::
    "CallbackManager \<Rightarrow> CBEventType \<Rightarrow> payload \<Rightarrow> nat \<times> CallbackManager" where
  "on_event_start cm event_type pl =
     (next_id cm,
      cm\<lparr>events := events cm @ [EventStart event_type pl (next_id cm)],
         next_id := Suc (next_id cm)\<rparr>)"

definition on_event_end ::
    "CallbackManager \<Rightarrow> CBEventType \<Rightarrow> payload \<Rightarrow> nat \<Rightarrow> CallbackManager" where
  "on_event_end cm event_type pl event_id =
     cm\<lparr>events := events cm @ [EventEnd event_type pl event_id]\<rparr>"

text \<open>
  The spans that a sequence of events leaves open: the spans it starts whose id it never
  ends.
\<close>

fun span_starts :: "CBEvent list \<Rightarrow> (CBEventType \<times> nat) list" where
  "span_starts [] = []"
| "span_starts (EventStart k pl i # es) = (k, i) # span_starts es"
| "span_starts (EventEnd k pl i # es) = span_starts es"

fun span_ends :: "CBEvent list \<Rightarrow> (CBEventType \<times> nat) list" where
  "span_ends [] = []"
| "span_ends (EventStart k pl i # es) = span_ends es"
| "span_ends (EventEnd k pl i # es) = (k, i) # span_ends es"

definition open_spans :: "CBEvent list \<Rightarrow> (CBEventType \<times> nat) list" where
  "open_spans es = filter (\<lambda>s. s \<notin> set (span_ends es)) (span_starts es)"

section \<open>The mock predictor (\<^verbatim>\<open>llm_predictor/mock.py\<close>)\<close>

text \<open>
  Errors are threaded with \<open>bind_err\<close>: the first exception ends the computation.
  \<open>getitem\<close> is \<^verbatim>\<open>d[k]\<close>, which raises \<^verbatim>\<open>KeyError\<close> on a missing key.
\<close>

definition bind_err :: "error + 'a \<Rightarrow> ('a \<Rightarrow> error + 'b) \<Rightarrow> error + 'b" where
  "bind_err m f = (case m of Inl e \<Rightarrow> Inl e | Inr x \<Rightarrow> f x)"

definition getitem :: "kwargs \<Rightarrow> string \<Rightarrow> error + pyval" where
  "getitem d k = (case map_of d k of None \<Rightarrow> Inl (KeyError k) | Some v \<Rightarrow> Inr v)"

text \<open>
  The helpers the mock predictor imports from \<^verbatim>\<open>llama_index.utils\<close> and
  \<^verbatim>\<open>llama_index.token_counter.utils\<close> are not among the modelled files; they are parameters
  of the model. \<open>tokenizer\<close> returns the token list of its argument, of which only the length
  is used.
\<close>

record TokenHelpers =
  tokenizer :: "pyval \<Rightarrow> error + nat list"
  count_tokens :: "string \<Rightarrow> int"
  mock_extract_keywords_response :: "pyval \<Rightarrow> error + string"
  mock_extract_kg_triplets_response :: "pyval \<Rightarrow> pyval \<Rightarrow> error + string"

text \<open>
  The predictor object: \<^verbatim>\<open>self.max_tokens\<close> and its own \<^verbatim>\<open>self.callback_manager\<close>
  (created in \<^verbatim>\<open>__init__\<close> as \<^verbatim>\<open>CallbackManager([])\<close>). A call returns the updated object.
\<close>

record MockLLMPredictor =
  predictor_max_tokens :: int
  predictor_callback_manager :: CallbackManager

definition mock_summary_predict :: "TokenHelpers \<Rightarrow> int \<Rightarrow> kwargs \<Rightarrow> error + string" where
  "mock_summary_predict h max_toks prompt_args =
     bind_err (getitem prompt_args ''context_str'') (\<lambda>context_str.
     bind_err (tokenizer h context_str) (\<lambda>toks.
       let num_text_tokens = int (length toks);
           token_limit = min num_text_tokens max_toks
       in Inr (join '' '' (replicate (nat token_limit) ''summary''))))"

definition mock_insert_predict :: string where
  "mock_insert_predict = ''ANSWER: 1''"

definition mock_query_select :: string where
  "mock_query_select = ''ANSWER: 1''"

definition mock_query_select_multiple :: "pyval \<Rightarrow> error + string" where
  "mock_query_select_multiple num_chunks =
     (case num_chunks of
        PyInt n \<Rightarrow>
          (let nums_str = join '', '' (map (\<lambda>i. str_int (int i)) [0..<nat n])
           in Inr (''ANSWER: '' @ nums_str))
      | PyStr s \<Rightarrow> Inl (TypeError ''str object cannot be interpreted as an integer''))"

definition mock_answer :: "TokenHelpers \<Rightarrow> int \<Rightarrow> kwargs \<Rightarrow> error + string" where
  "mock_answer h max_toks prompt_args =
     bind_err (getitem prompt_args ''context_str'') (\<lambda>context_str.
     bind_err (tokenizer h context_str) (\<lambda>toks.
       let num_ctx_tokens = int (length toks);
           token_limit = min num_ctx_tokens max_toks
       in Inr (join '' '' (replicate (nat token_limit) ''answer''))))"

definition mock_refine :: "TokenHelpers \<Rightarrow> int \<Rightarrow> Prompt \<Rightarrow> kwargs \<Rightarrow> error + string" where
  "mock_refine h max_toks prompt prompt_args =
     bind_err
       (if ''existing_answer'' \<notin> fst ` set prompt_args
        then getitem (partial_dict prompt) ''existing_answer''
        else getitem prompt_args ''existing_answer'') (\<lambda>existing_answer.
     bind_err (getitem prompt_args ''context_msg'') (\<lambda>context_msg.
     bind_err (tokenizer h context_msg) (\<lambda>ctx_toks.
     bind_err (tokenizer h existing_answer) (\<lambda>exist_toks.
       let num_ctx_tokens = int (length ctx_toks);
           num_exist_tokens = int (length exist_toks);
           token_limit = min (num_ctx_tokens + num_exist_tokens) max_toks
       in Inr (join '' '' (replicate (nat token_limit) ''answer''))))))"

definition mock_keyword_extract :: "TokenHelpers \<Rightarrow> kwargs \<Rightarrow> error + string" where
  "mock_keyword_extract h prompt_args =
     bind_err (getitem prompt_args ''text'') (mock_extract_keywords_response h)"

definition mock_query_keyword_extract :: "TokenHelpers \<Rightarrow> kwargs \<Rightarrow> error + string" where
  "mock_query_keyword_extract h prompt_args =
     bind_err (getitem prompt_args ''question'') (mock_extract_keywords_response h)"

definition mock_knowledge_graph_triplet_extract ::
    "TokenHelpers \<Rightarrow> kwargs \<Rightarrow> pyval \<Rightarrow> error + string" where
  "mock_knowledge_graph_triplet_extract h prompt_args max_triplets =
     bind_err (getitem prompt_args ''text'')
       (\<lambda>t. mock_extract_kg_triplets_response h t max_triplets)"

text \<open>
  \<^verbatim>\<open>_log_start\<close> copies the keyword arguments into the payload, assigns the prompt to
  the key \<^verbatim>\<open>EventPayload.TEMPLATE\<close> (which replaces the value of a keyword argument named
  \<^verbatim>\<open>template\<close>) and opens an \<open>LLM\<close> event; \<^verbatim>\<open>_log_end\<close> closes it with the
  output, the formatted prompt and the token counts.
\<close>

definition log_start :: "MockLLMPredictor \<Rightarrow> Prompt \<Rightarrow> kwargs \<Rightarrow> nat \<times> MockLLMPredictor" where
  "log_start self prompt prompt_args =
     (let llm_payload = map (\<lambda>(k, v). (Key k, Val v)) prompt_args;
          llm_payload = payload_setitem llm_payload (Ev TEMPLATE) (TemplateVal prompt);
          (event_id, cm) = on_event_start (predictor_callback_manager self) LLM llm_payload
      in (event_id, self\<lparr>predictor_callback_manager := cm\<rparr>))"

definition log_end ::
    "TokenHelpers \<Rightarrow> MockLLMPredictor \<Rightarrow> nat \<Rightarrow> string \<Rightarrow> string \<Rightarrow> MockLLMPredictor" where
  "log_end h self event_id output formatted_prompt =
     (let prompt_tokens_count = count_tokens h formatted_prompt;
          prediction_tokens_count = count_tokens h output
      in self\<lparr>predictor_callback_manager :=
           on_event_end (predictor_callback_manager self) LLM
             [(Ev RESPONSE, Val (PyStr output)),
              (Ev PROMPT, Val (PyStr formatted_prompt)),
              (Key ''formatted_prompt_tokens_count'', Val (PyInt prompt_tokens_count)),
              (Key ''prediction_tokens_count'', Val (PyInt prediction_tokens_count)),
              (Key ''total_tokens_used'',
               Val (PyInt (prompt_tokens_count + prediction_tokens_count)))]
             event_id\<rparr>)"

text \<open>
  \<^verbatim>\<open>MockLLMPredictor.predict\<close>: the event is opened, the prompt is formatted, and only then
  the prompt type selects the mock output. An exception leaves before \<^verbatim>\<open>_log_end\<close>.
\<close>

definition MockLLMPredictor_predict ::
    "TokenHelpers \<Rightarrow> MockLLMPredictor \<Rightarrow> Prompt \<Rightarrow> kwargs \<Rightarrow>
     (error + string) \<times> MockLLMPredictor" where
  "MockLLMPredictor_predict h self prompt prompt_args =
     (let (event_id, self1) = log_start self prompt prompt_args
      in case Prompt_format prompt prompt_args of
           Inl e \<Rightarrow> (Inl e, self1)
         | Inr formatted_prompt \<Rightarrow>
             (let prompt_str = prompt_type prompt;
                  result =
                    (if prompt_str = SUMMARY then
                       mock_summary_predict h (predictor_max_tokens self1) prompt_args
                     else if prompt_str = TREE_INSERT then Inr mock_insert_predict
                     else if prompt_str = TREE_SELECT then Inr mock_query_select
                     else if prompt_str = TREE_SELECT_MULTIPLE then
                       bind_err (getitem prompt_args ''num_chunks'') mock_query_select_multiple
                     else if prompt_str = REFINE then
                       mock_refine h (predictor_max_tokens self1) prompt prompt_args
                     else if prompt_str = QUESTION_ANSWER then
                       mock_answer h (predictor_max_tokens self1) prompt_args
                     else if prompt_str = KEYWORD_EXTRACT then
                       mock_keyword_extract h prompt_args
                     else if prompt_str = QUERY_KEYWORD_EXTRACT then
                       mock_query_keyword_extract h prompt_args
                     else if prompt_str = KNOWLEDGE_TRIPLET_EXTRACT then
                       mock_knowledge_graph_triplet_extract h prompt_args
                         (case map_of (partial_dict prompt) ''max_knowledge_triplets'' of
                            None \<Rightarrow> PyInt 2
                          | Some v \<Rightarrow> v)
                     else if prompt_str = CUSTOM then Inr []
                     else Inl (ValueError ''Invalid prompt type.''))
              in case result of
                   Inl e \<Rightarrow> (Inl e, self1)
                 | Inr output \<Rightarrow>
                     (Inr output, log_end h self1 event_id output formatted_prompt)))"

definition MockLLMPredictor_apredict ::
    "TokenHelpers \<Rightarrow> MockLLMPredictor \<Rightarrow> Prompt \<Rightarrow> kwargs \<Rightarrow>
     (error + string) \<times> MockLLMPredictor" where
  "MockLLMPredictor_apredict h self prompt prompt_args =
     MockLLMPredictor_predict h self prompt prompt_args"

text \<open>The prompt types for which \<^verbatim>\<open>predict\<close> has a branch.\<close>

definition handled_prompt_types :: "PromptType set" where
  "handled_prompt_types =
     {SUMMARY, TREE_INSERT, TREE_SELECT, TREE_SELECT_MULTIPLE, REFINE, QUESTION_ANSWER,
      KEYWORD_EXTRACT, QUERY_KEYWORD_EXTRACT, KNOWLEDGE_TRIPLET_EXTRACT, CUSTOM}"

section \<open>The knowledge-graph query engine (\<^verbatim>\<open>query_engine/knowledge_graph_query_engine.py\<close>)\<close>

subsection \<open>Collaborators\<close>

text \<open>
  \<^verbatim>\<open>GraphStoreType\<close> is declared in \<^verbatim>\<open>llama_index.graph_stores.registery\<close>. The engine's
  file names the member \<^verbatim>\<open>NEBULA\<close>; \<open>OtherGraphStoreType\<close> carries the name of any other
  member. \<open>key_str\<close> is the text of a \<^verbatim>\<open>KeyError\<close> for such a key.
\<close>

datatype GraphStoreType = NEBULA | OtherGraphStoreType string

fun key_str :: "GraphStoreType \<Rightarrow> string" where
  "key_str NEBULA = ''GraphStoreType.NEBULA''"
| "key_str (OtherGraphStoreType name) = ''GraphStoreType.'' @ name"

text \<open>
  The collaborators are capabilities with fixed contracts. Each is a record of its methods;
  a method returns \<open>Inl\<close> when it raises. \<open>store_class\<close> is the class of the graph store
  object (\<^verbatim>\<open>self.graph_store.__class__\<close>), by name.
\<close>

record GraphStore =
  store_class :: string
  get_schema :: "bool \<Rightarrow> error + string"
  query :: "string \<Rightarrow> error + string"

record StorageContext =
  graph_store :: "GraphStore option"

record LLMPredictor =
  predict :: "Prompt \<Rightarrow> kwargs \<Rightarrow> error + string"
  apredict :: "Prompt \<Rightarrow> kwargs \<Rightarrow> error + string"

record ServiceContext =
  llm_predictor :: LLMPredictor

record QueryBundle =
  query_str :: string

text \<open>
  The evidence unit. In the source the node is built as
  \<^verbatim>\<open>NodeWithScore(node=TextNode(text=prompt_string, score=1.0, metadata={...}))\<close>:
  the keyword \<^verbatim>\<open>score=1.0\<close> stands inside the parentheses of \<^verbatim>\<open>TextNode(...)\<close>, and
  \<^verbatim>\<open>NodeWithScore(...)\<close> is given the single keyword \<^verbatim>\<open>node\<close>. \<open>node_score\<close> is the
  \<^verbatim>\<open>score\<close> keyword the \<^verbatim>\<open>TextNode\<close> constructor receives; \<open>score\<close> is the
  \<^verbatim>\<open>score\<close> of \<^verbatim>\<open>NodeWithScore\<close>, an optional keyword that is \<open>None\<close> when the call
  does not pass it.
\<close>

record TextNode =
  node_text :: string
  node_score :: "real option"
  metadata :: kwargs

record NodeWithScore =
  node :: TextNode
  score :: "real option"

text \<open>The final answer (\<^verbatim>\<open>RESPONSE_TYPE\<close>) is opaque to the engine; it is modelled as its text.\<close>

type_synonym RESPONSE_TYPE = string

record ResponseSynthesizer =
  synthesize :: "QueryBundle \<Rightarrow> NodeWithScore list \<Rightarrow> error + RESPONSE_TYPE"
  asynthesize :: "QueryBundle \<Rightarrow> NodeWithScore list \<Rightarrow> error + RESPONSE_TYPE"

subsection \<open>The state outside the engine object\<close>

text \<open>
  A call of the engine changes two things outside the engine object: the callback manager
  it reports to (\<^verbatim>\<open>self.callback_manager\<close>), and the collaborators it invokes. \<open>calls\<close>
  records every invocation of a collaborator by the engine, in order, with its arguments.
  The events a collaborator may emit on its own are not part of the engine's code and are
  not recorded.
\<close>

datatype Call =
    GetSchema bool
  | GraphQuery string
  | Predict Prompt kwargs
  | APredict Prompt kwargs
  | Synthesize QueryBundle "NodeWithScore list"
  | ASynthesize QueryBundle "NodeWithScore list"

record World =
  callback_manager :: CallbackManager
  calls :: "Call list"

definition log_call :: "Call \<Rightarrow> World \<Rightarrow> World" where
  "log_call c w = w\<lparr>calls := calls w @ [c]\<rparr>"

definition start_event :: "CBEventType \<Rightarrow> payload \<Rightarrow> World \<Rightarrow> nat \<times> World" where
  "start_event event_type pl w =
     (let (event_id, cm) = on_event_start (callback_manager w) event_type pl
      in (event_id, w\<lparr>callback_manager := cm\<rparr>))"

definition end_event :: "CBEventType \<Rightarrow> payload \<Rightarrow> nat \<Rightarrow> World \<Rightarrow> World" where
  "end_event event_type pl event_id w =
     w\<lparr>callback_manager := on_event_end (callback_manager w) event_type pl event_id\<rparr>"

text \<open>What a call added to the state: the events and the collaborator calls after the old ones.\<close>

definition new_events :: "World \<Rightarrow> World \<Rightarrow> CBEvent list" where
  "new_events w w' =
     drop (length (events (callback_manager w))) (events (callback_manager w'))"

definition new_calls :: "World \<Rightarrow> World \<Rightarrow> Call list" where
  "new_calls w w' = drop (length (calls w)) (calls w')"

text \<open>The evidence units handed to the response synthesizer in a list of calls.\<close>

fun synthesized_nodes :: "Call list \<Rightarrow> NodeWithScore list" where
  "synthesized_nodes [] = []"
| "synthesized_nodes (Synthesize q ns # cs) = ns @ synthesized_nodes cs"
| "synthesized_nodes (ASynthesize q ns # cs) = ns @ synthesized_nodes cs"
| "synthesized_nodes (c # cs) = synthesized_nodes cs"

subsection \<open>Prompt templates\<close>

definition DEFAULT_NEBULAGRAPH_NL2CYPHER_PROMPT_TMPL :: string where
  "DEFAULT_NEBULAGRAPH_NL2CYPHER_PROMPT_TMPL =
     ''\<newline>'' @
     ''Generate NebulaGraph query from natural language.\<newline>'' @
     ''Use only the provided relationship types and properties in the schema.\<newline>'' @
     ''Do not use any other relationship types or properties that are not provided.\<newline>'' @
     ''Schema:\<newline>'' @
     ''---\<newline>'' @
     ''{schema}\<newline>'' @
     ''---\<newline>'' @
     ''Note: NebulaGraph speaks a dialect of Cypher, comparing to standard Cypher:\<newline>'' @
     ''\<newline>'' @
     ''1. it uses double equals sign for comparison: `==` rather than `=`\<newline>'' @
     ''2. it needs explicit label specification when referring to node properties, i.e.\<newline>'' @
     ''v is a variable of a node, and we know its label is Foo, v.`foo`.name is correct\<newline>'' @
     ''while v.name is not.\<newline>'' @
     ''\<newline>'' @
     ''For example, see this diff between standard and NebulaGraph Cypher dialect:\<newline>'' @
     ''```diff\<newline>'' @
     ''< MATCH (p:person)-[:directed]->(m:movie) WHERE m.name = 'The Godfather'\<newline>'' @
     ''< RETURN p.name;\<newline>'' @
     ''---\<newline>'' @
     ''> MATCH (p:`person`)-[:directed]->(m:`movie`) WHERE m.`movie`.`name` == 'The Godfather'\<newline>'' @
     ''> RETURN p.`person`.`name`;\<newline>'' @
     ''```\<newline>'' @
     ''\<newline>'' @
     ''Question: {query_str}\<newline>'' @
     ''\<newline>'' @
     ''NebulaGraph Cypher dialect query:\<newline>''"

definition DEFAULT_NEBULAGRAPH_NL2CYPHER_PROMPT :: Prompt where
  "DEFAULT_NEBULAGRAPH_NL2CYPHER_PROMPT =
     \<lparr>template = DEFAULT_NEBULAGRAPH_NL2CYPHER_PROMPT_TMPL,
      prompt_type = TEXT_TO_GRAPH_QUERY,
      partial_dict = []\<rparr>"

definition DEFAULT_NL2GRAPH_PROMPT_MAP :: "(GraphStoreType \<times> Prompt) list" where
  "DEFAULT_NL2GRAPH_PROMPT_MAP = [(NEBULA, DEFAULT_NEBULAGRAPH_NL2CYPHER_PROMPT)]"

definition DEFAULT_KG_RESPONSE_ANSWER_PROMPT_TMPL :: string where
  "DEFAULT_KG_RESPONSE_ANSWER_PROMPT_TMPL =
     ''\<newline>'' @
     ''The original question is given below.\<newline>'' @
     ''This question has been translated into a Graph Database query.\<newline>'' @
     ''Both the Graph query and the response are given below.\<newline>'' @
     ''Given the Graph Query response, synthesise a response to the original question.\<newline>'' @
     ''\<newline>'' @
     ''Original question: {query_str}\<newline>'' @
     ''Graph query: {kg_query_str}\<newline>'' @
     ''Graph response: {kg_response_str}\<newline>'' @
     ''Response: \<newline>''"

definition DEFAULT_KG_RESPONSE_ANSWER_PROMPT :: Prompt where
  "DEFAULT_KG_RESPONSE_ANSWER_PROMPT =
     \<lparr>template = DEFAULT_KG_RESPONSE_ANSWER_PROMPT_TMPL,
      prompt_type = QUESTION_ANSWER,
      partial_dict = []\<rparr>"

subsection \<open>Construction\<close>

text \<open>
  What \<^verbatim>\<open>__init__\<close> reads from other modules: the class-to-type registry
  \<^verbatim>\<open>GRAPH_STORE_CLASS_TO_GRAPH_STORE_TYPE\<close> (its content is not among the modelled files)
  and the two factories that supply a default service context and a default response
  synthesizer. The factories are taken to return.
\<close>

record Environment =
  GRAPH_STORE_CLASS_TO_GRAPH_STORE_TYPE :: "(string \<times> GraphStoreType) list"
  ServiceContext_from_defaults :: ServiceContext
  get_response_synthesizer :: "ServiceContext \<Rightarrow> ResponseSynthesizer"

text \<open>The attributes \<^verbatim>\<open>__init__\<close> assigns. No other method of the class assigns one.\<close>

record KnowledgeGraphQueryEngine =
  storage_context :: StorageContext
  self_graph_store :: GraphStore
  service_context :: ServiceContext
  graph_store_type :: GraphStoreType
  graph_schema :: string
  graph_query_synthesis_prompt :: Prompt
  graph_response_answer_prompt :: Prompt
  verbose :: bool
  response_synthesizer :: ResponseSynthesizer

text \<open>
  \<^verbatim>\<open>__init__\<close>, in the order of the source: the two assertions, the service context, the
  registry lookup of the graph store's class, the schema fetch, the synthesis prompt (the
  caller's, or else the registry lookup of the store type), the answer prompt and the
  response synthesizer. \<^verbatim>\<open>a or b\<close> takes \<open>a\<close> unless it is \<^verbatim>\<open>None\<close>.
\<close>

definition KnowledgeGraphQueryEngine_init ::
    "Environment \<Rightarrow> ServiceContext option \<Rightarrow> StorageContext option \<Rightarrow> Prompt option \<Rightarrow>
     Prompt option \<Rightarrow> bool \<Rightarrow> bool \<Rightarrow> ResponseSynthesizer option \<Rightarrow> World \<Rightarrow>
     (error + KnowledgeGraphQueryEngine) \<times> World" where
  "KnowledgeGraphQueryEngine_init env service_ctx storage_ctx query_synthesis_prompt
       response_answer_prompt refresh_schema verb synthesizer w =
     (case storage_ctx of
        None \<Rightarrow> (Inl (AssertionError ''Must provide a storage context.''), w)
      | Some sc \<Rightarrow>
     (case graph_store sc of
        None \<Rightarrow> (Inl (AssertionError ''Must provide a graph store in the storage context.''), w)
      | Some gs \<Rightarrow>
     (let svc = (case service_ctx of Some s \<Rightarrow> s | None \<Rightarrow> ServiceContext_from_defaults env)
      in case map_of (GRAPH_STORE_CLASS_TO_GRAPH_STORE_TYPE env) (store_class gs) of
        None \<Rightarrow> (Inl (KeyError (store_class gs)), w)
      | Some gst \<Rightarrow>
     (let w1 = log_call (GetSchema refresh_schema) w
      in case get_schema gs refresh_schema of
        Inl e \<Rightarrow> (Inl e, w1)
      | Inr schema \<Rightarrow>
     (case (case query_synthesis_prompt of
              Some p \<Rightarrow> Inr p
            | None \<Rightarrow>
                (case map_of DEFAULT_NL2GRAPH_PROMPT_MAP gst of
                   None \<Rightarrow> Inl (KeyError (key_str gst))
                 | Some p \<Rightarrow> Inr p)) of
        Inl e \<Rightarrow> (Inl e, w1)
      | Inr synthesis_prompt \<Rightarrow>
          (Inr \<lparr>storage_context = sc,
                self_graph_store = gs,
                service_context = svc,
                graph_store_type = gst,
                graph_schema = schema,
                graph_query_synthesis_prompt = synthesis_prompt,
                graph_response_answer_prompt =
                  (case response_answer_prompt of
                     Some p \<Rightarrow> p
                   | None \<Rightarrow> DEFAULT_KG_RESPONSE_ANSWER_PROMPT),
                verbose = verb,
                response_synthesizer =
                  (case synthesizer of
                     Some s \<Rightarrow> s
                   | None \<Rightarrow> get_response_synthesizer env svc)\<rparr>,
           w1))))))"

subsection \<open>Query generation\<close>

definition generate_query ::
    "KnowledgeGraphQueryEngine \<Rightarrow> string \<Rightarrow> World \<Rightarrow> (error + string) \<times> World" where
  "generate_query self qs w =
     (let prompt_args = [(''query_str'', PyStr qs), (''schema'', PyStr (graph_schema self))];
          graph_store_query =
            predict (llm_predictor (service_context self))
              (graph_query_synthesis_prompt self) prompt_args
      in (graph_store_query,
          log_call (Predict (graph_query_synthesis_prompt self) prompt_args) w))"

definition agenerate_query ::
    "KnowledgeGraphQueryEngine \<Rightarrow> string \<Rightarrow> World \<Rightarrow> (error + string) \<times> World" where
  "agenerate_query self qs w =
     (let prompt_args = [(''query_str'', PyStr qs), (''schema'', PyStr (graph_schema self))];
          graph_store_query =
            apredict (llm_predictor (service_context self))
              (graph_query_synthesis_prompt self) prompt_args
      in (graph_store_query,
          log_call (APredict (graph_query_synthesis_prompt self) prompt_args) w))"

subsection \<open>The two entry points\<close>

text \<open>
  \<open>engine_query\<close> is \<^verbatim>\<open>_query\<close> and \<open>engine_aquery\<close> is \<^verbatim>\<open>_aquery\<close> (a HOL name cannot
  start with an underscore). The source has no \<^verbatim>\<open>try\<close> statement: an exception of a stage
  leaves the method at once, with the state as it is at that point. Printing under
  \<^verbatim>\<open>verbose\<close> and the \<^verbatim>\<open>logger.info\<close> lines write to the console and the log only and are
  left out.
\<close>

definition engine_query ::
    "KnowledgeGraphQueryEngine \<Rightarrow> QueryBundle \<Rightarrow> World \<Rightarrow> (error + RESPONSE_TYPE) \<times> World" where
  "engine_query self query_bundle w =
     (let (query_id, w1) =
            start_event QUERY [(Ev QUERY_STR, Val (PyStr (query_str query_bundle)))] w
      in case generate_query self (query_str query_bundle) w1 of
        (Inl e, w2) \<Rightarrow> (Inl e, w2)
      | (Inr graph_store_query, w2) \<Rightarrow>
     (let (retrieve_id, w3) =
            start_event RETRIEVE [(Ev QUERY_STR, Val (PyStr graph_store_query))] w2;
          w4 = log_call (GraphQuery graph_store_query) w3
      in case query (self_graph_store self) graph_store_query of
        Inl e \<Rightarrow> (Inl e, w4)
      | Inr graph_store_response \<Rightarrow>
     (let w5 = end_event RETRIEVE [(Ev RESPONSE, Val (PyStr graph_store_response))]
                 retrieve_id w4
      in case Prompt_format (graph_response_answer_prompt self)
                [(''query_str'', PyStr (query_str query_bundle)),
                 (''kg_query_str'', PyStr graph_store_query),
                 (''kg_response_str'', PyStr graph_store_response)] of
        Inl e \<Rightarrow> (Inl e, w5)
      | Inr prompt_string \<Rightarrow>
     (let nd = \<lparr>node =
                  \<lparr>node_text = prompt_string,
                   node_score = Some 1.0,
                   metadata =
                     [(''query_str'', PyStr (query_str query_bundle)),
                      (''graph_store_query'', PyStr graph_store_query),
                      (''graph_store_response'', PyStr graph_store_response),
                      (''graph_schema'', PyStr (graph_schema self))]\<rparr>,
                score = None\<rparr>;
          w6 = log_call (Synthesize query_bundle [nd]) w5
      in case synthesize (response_synthesizer self) query_bundle [nd] of
        Inl e \<Rightarrow> (Inl e, w6)
      | Inr response \<Rightarrow>
          (Inr response,
           end_event QUERY [(Ev RESPONSE, Val (PyStr response))] query_id w6)))))"

definition engine_aquery ::
    "KnowledgeGraphQueryEngine \<Rightarrow> QueryBundle \<Rightarrow> World \<Rightarrow> (error + RESPONSE_TYPE) \<times> World" where
  "engine_aquery self query_bundle w =
     (let (query_id, w1) =
            start_event QUERY [(Ev QUERY_STR, Val (PyStr (query_str query_bundle)))] w
      in case agenerate_query self (query_str query_bundle) w1 of
        (Inl e, w2) \<Rightarrow> (Inl e, w2)
      | (Inr graph_store_query, w2) \<Rightarrow>
     (let (retrieve_id, w3) =
            start_event RETRIEVE [(Ev QUERY_STR, Val (PyStr graph_store_query))] w2;
          w4 = log_call (GraphQuery graph_store_query) w3
      in case query (self_graph_store self) graph_store_query of
        Inl e \<Rightarrow> (Inl e, w4)
      | Inr graph_store_response \<Rightarrow>
     (let w5 = end_event RETRIEVE [(Ev RESPONSE, Val (PyStr graph_store_response))]
                 retrieve_id w4
      in case Prompt_format (graph_response_answer_prompt self)
                [(''query_str'', PyStr (query_str query_bundle)),
                 (''kg_query_str'', PyStr graph_store_query),
                 (''kg_response_str'', PyStr graph_store_response)] of
        Inl e \<Rightarrow> (Inl e, w5)
      | Inr prompt_string \<Rightarrow>
     (let nd = \<lparr>node =
                  \<lparr>node_text = prompt_string,
                   node_score = Some 1.0,
                   metadata =
                     [(''query_str'', PyStr (query_str query_bundle)),
                      (''graph_store_query'', PyStr graph_store_query),
                      (''graph_store_response'', PyStr graph_store_response),
                      (''graph_schema'', PyStr (graph_schema self))]\<rparr>,
                score = None\<rparr>;
          w6 = log_call (ASynthesize query_bundle [nd]) w5
      in case asynthesize (response_synthesizer self) query_bundle [nd] of
        Inl e \<Rightarrow> (Inl e, w6)
      | Inr response \<Rightarrow>
          (Inr response,
           end_event QUERY [(Ev RESPONSE, Val (PyStr response))] query_id w6)))))"

subsection \<open>Sequences of calls on one engine\<close>

text \<open>
  The calls a client makes on a constructed engine, one after the other. No method
  assigns an attribute of \<^verbatim>\<open>self\<close>, so every call of the sequence runs on the engine as
  \<^verbatim>\<open>__init__\<close> left it; the state outside the engine is threaded through.
\<close>

datatype EngineCall =
    CallQuery QueryBundle
  | CallAQuery QueryBundle
  | CallGenerateQuery string
  | CallAGenerateQuery string

fun call_engine :: "KnowledgeGraphQueryEngine \<Rightarrow> EngineCall \<Rightarrow> World \<Rightarrow> World" where
  "call_engine self (CallQuery qb) w = snd (engine_query self qb w)"
| "call_engine self (CallAQuery qb) w = snd (engine_aquery self qb w)"
| "call_engine self (CallGenerateQuery qs) w = snd (generate_query self qs w)"
| "call_engine self (CallAGenerateQuery qs) w = snd (agenerate_query self qs w)"

fun run_calls :: "KnowledgeGraphQueryEngine \<Rightarrow> EngineCall list \<Rightarrow> World \<Rightarrow> World" where
  "run_calls self [] w = w"
| "run_calls self (c # cs) w = run_calls self cs (call_engine self c w)"

text \<open>The schema a collaborator call observes: the value it is handed as the schema.\<close>

fun observed_schemas :: "Call list \<Rightarrow> pyval option list" where
  "observed_schemas [] = []"
| "observed_schemas (Predict p kw # cs) = map_of kw ''schema'' # observed_schemas cs"
| "observed_schemas (APredict p kw # cs) = map_of kw ''schema'' # observed_schemas cs"
| "observed_schemas (Synthesize q ns # cs) =
     map (\<lambda>n. map_of (metadata (node n)) ''graph_schema'') ns @ observed_schemas cs"
| "observed_schemas (ASynthesize q ns # cs) =
     map (\<lambda>n. map_of (metadata (node n)) ''graph_schema'') ns @ observed_schemas cs"
| "observed_schemas (c # cs) = observed_schemas cs"

text \<open>The schema fetches in a list of calls.\<close>

fun schema_fetches :: "Call list \<Rightarrow> bool list" where
  "schema_fetches [] = []"
| "schema_fetches (GetSchema refresh # cs) = refresh # schema_fetches cs"
| "schema_fetches (c # cs) = schema_fetches cs"

text \<open>
  A list of calls keeps the engine's schema: it holds no schema fetch, and every schema
  value it hands on is the schema of the engine.
\<close>

definition schema_kept :: "KnowledgeGraphQueryEngine \<Rightarrow> Call list \<Rightarrow> bool" where
  "schema_kept self ys \<longleftrightarrow>
     schema_fetches ys = [] \<and>
     (\<forall>v \<in> set (observed_schemas ys). v = Some (PyStr (graph_schema self)))"

text \<open>The queries sent to the graph store in a list of calls.\<close>

fun backend_queries :: "Call list \<Rightarrow> string list" where
  "backend_queries [] = []"
| "backend_queries (GraphQuery g # cs) = g # backend_queries cs"
| "backend_queries (c # cs) = backend_queries cs"

subsection \<open>The stages of a run\<close>

text \<open>
  Shorthand for what the entry points build: the keyword arguments of the completion call,
  the keyword arguments the answer prompt is filled with, and the evidence unit.
\<close>

abbreviation generation_args :: "KnowledgeGraphQueryEngine \<Rightarrow> string \<Rightarrow> kwargs" where
  "generation_args self qs \<equiv> [(''query_str'', PyStr qs), (''schema'', PyStr (graph_schema self))]"

abbreviation answer_args :: "string \<Rightarrow> string \<Rightarrow> string \<Rightarrow> kwargs" where
  "answer_args qs gq resp \<equiv>
     [(''query_str'', PyStr qs), (''kg_query_str'', PyStr gq), (''kg_response_str'', PyStr resp)]"

abbreviation evidence_node ::
    "KnowledgeGraphQueryEngine \<Rightarrow> string \<Rightarrow> string \<Rightarrow> string \<Rightarrow> string \<Rightarrow> NodeWithScore" where
  "evidence_node self qs gq resp filled \<equiv>
     \<lparr>node = \<lparr>node_text = filled, node_score = Some 1.0,
              metadata = [(''query_str'', PyStr qs),
                          (''graph_store_query'', PyStr gq),
                          (''graph_store_response'', PyStr resp),
                          (''graph_schema'', PyStr (graph_schema self))]\<rparr>,
      score = None\<rparr>"

section \<open>Fixtures\<close>

text \<open>
  The end-to-end scenario of the specification: a graph store of the registered Nebula class
  with schema \<^verbatim>\<open>(actor)-[:starred_in]->(movie)\<close> that answers \<^verbatim>\<open>Actor1\<close>, a completion
  capability that returns a fixed query, and a synthesizer that returns
  \<^verbatim>\<open>The actor is Actor1.\<close>; and variants of it: a graph store whose query fails, and a
  store of the library's class \<^verbatim>\<open>SimpleGraphStore\<close>, which is registered under a type
  that has no default prompt and whose \<^verbatim>\<open>get_schema\<close> and \<^verbatim>\<open>query\<close> raise
  \<^verbatim>\<open>NotImplementedError\<close>.
\<close>

definition fixture_graph_store :: GraphStore where
  "fixture_graph_store =
     \<lparr>store_class = ''NebulaGraphStore'',
      get_schema = (\<lambda>refresh. Inr ''(actor)-[:starred_in]->(movie)''),
      query = (\<lambda>q. Inr ''Actor1'')\<rparr>"

definition failing_graph_store :: GraphStore where
  "failing_graph_store =
     \<lparr>store_class = ''NebulaGraphStore'',
      get_schema = (\<lambda>refresh. Inr ''(actor)-[:starred_in]->(movie)''),
      query = (\<lambda>q. Inl (Raised ''SemanticError: no such edge type''))\<rparr>"


definition fixture_query :: string where
  "fixture_query = ''MATCH (a)-[:starred_in]->(m) WHERE m.name == 'X' RETURN a.name''"

definition fixture_llm_predictor :: LLMPredictor where
  "fixture_llm_predictor =
     \<lparr>predict = (\<lambda>p kw. Inr fixture_query),
      apredict = (\<lambda>p kw. Inr fixture_query)\<rparr>"

definition fixture_synthesizer :: ResponseSynthesizer where
  "fixture_synthesizer =
     \<lparr>synthesize = (\<lambda>q ns. Inr ''The actor is Actor1.''),
      asynthesize = (\<lambda>q ns. Inr ''The actor is Actor1.'')\<rparr>"

definition fixture_env :: Environment where
  "fixture_env =
     \<lparr>GRAPH_STORE_CLASS_TO_GRAPH_STORE_TYPE =
        [(''SimpleGraphStore'', OtherGraphStoreType ''SIMPLE''),
         (''NebulaGraphStore'', NEBULA)],
      ServiceContext_from_defaults = \<lparr>llm_predictor = fixture_llm_predictor\<rparr>,
      get_response_synthesizer = (\<lambda>svc. fixture_synthesizer)\<rparr>"

definition fixture_question :: QueryBundle where
  "fixture_question = \<lparr>query_str = ''Which actor starred in the movie X?''\<rparr>"

definition world0 :: World where
  "world0 = \<lparr>callback_manager = \<lparr>events = [], next_id = 0\<rparr>, calls = []\<rparr>"

text \<open>The engine that \<^verbatim>\<open>__init__\<close> builds from a graph store with every other argument left out.\<close>

definition engine_of :: "GraphStore \<Rightarrow> KnowledgeGraphQueryEngine" where
  "engine_of gs =
     \<lparr>storage_context = \<lparr>graph_store = Some gs\<rparr>,
      self_graph_store = gs,
      service_context = \<lparr>llm_predictor = fixture_llm_predictor\<rparr>,
      graph_store_type = NEBULA,
      graph_schema = ''(actor)-[:starred_in]->(movie)'',
      graph_query_synthesis_prompt = DEFAULT_NEBULAGRAPH_NL2CYPHER_PROMPT,
      graph_response_answer_prompt = DEFAULT_KG_RESPONSE_ANSWER_PROMPT,
      verbose = False,
      response_synthesizer = fixture_synthesizer\<rparr>"


text \<open>
  A completion capability that returns the template of the prompt object it is given, and
  the fixture engine with this capability in its service context.
\<close>

definition template_echo_predictor :: LLMPredictor where
  "template_echo_predictor =
     \<lparr>predict = (\<lambda>p kw. Inr (template p)),
      apredict = (\<lambda>p kw. Inr (template p))\<rparr>"

definition echo_engine :: KnowledgeGraphQueryEngine where
  "echo_engine =
     (engine_of fixture_graph_store)
       \<lparr>service_context := \<lparr>llm_predictor = template_echo_predictor\<rparr>\<rparr>"

text \<open>
  A completion capability that fills the prompt with the arguments it is given and hands
  the filled text to \<^verbatim>\<open>MockLLM.complete\<close> with \<^verbatim>\<open>max_tokens\<close> unset, and the fixture
  engine with this capability.
\<close>

definition formatting_predictor :: LLMPredictor where
  "formatting_predictor =
     \<lparr>predict =
        (\<lambda>p kw. bind_err (Prompt_format p kw)
                  (\<lambda>filled. Inr (completion_text (complete \<lparr>max_tokens = None\<rparr> filled)))),
      apredict =
        (\<lambda>p kw. bind_err (Prompt_format p kw)
                  (\<lambda>filled. Inr (completion_text (complete \<lparr>max_tokens = None\<rparr> filled))))\<rparr>"

definition formatting_engine :: KnowledgeGraphQueryEngine where
  "formatting_engine =
     (engine_of fixture_graph_store)
       \<lparr>service_context := \<lparr>llm_predictor = formatting_predictor\<rparr>\<rparr>"

text \<open>Helpers and a predictor object for the mock predictor.\<close>

definition fixture_helpers :: TokenHelpers where
  "fixture_helpers =
     \<lparr>tokenizer =
        (\<lambda>v. case v of
                PyStr s \<Rightarrow> Inr (map of_char s)
              | PyInt i \<Rightarrow> Inl (TypeError ''expected a string'')),
      count_tokens = (\<lambda>s. int (length s)),
      mock_extract_keywords_response = (\<lambda>v. Inr (py_str v)),
      mock_extract_kg_triplets_response = (\<lambda>v m. Inr (py_str v))\<rparr>"

definition fixture_mock_predictor :: MockLLMPredictor where
  "fixture_mock_predictor =
     \<lparr>predictor_max_tokens = 256,
      predictor_callback_manager = \<lparr>events = [], next_id = 0\<rparr>\<rparr>"

section \<open>Properties of the mock language model\<close>

lemma map_const_upt: "map (\<lambda>_. c) [0..<k] = replicate k c"
  by (induction k) (simp_all add: replicate_append_same)

lemma join_replicate_Suc:
  "join sep (replicate (Suc k) x) = concat (replicate k (x @ sep)) @ x"
  by (induction k) simp_all

lemma generate_text_pos:
  assumes "0 < n"
  shows "generate_text n = concat (replicate (nat n - 1) ''text '') @ ''text''"
proof -
  from assms obtain k where k: "nat n = Suc k"
    by (cases "nat n") auto
  have "join '' '' (replicate (Suc k) ''text'') = concat (replicate k ''text '') @ ''text''"
    using join_replicate_Suc [of "'' ''" k "''text''"] by simp
  then show ?thesis
    unfolding generate_text_def map_const_upt k by simp
qed

lemma generate_text_nonpos: "n \<le> 0 \<Longrightarrow> generate_text n = []"
  by (simp add: generate_text_def)

lemma length_concat_replicate: "length (concat (replicate k xs)) = k * length xs"
  by (induction k) simp_all

text \<open>
  C10 (as amended). \<^verbatim>\<open>MockLLM.complete\<close> never fails and is a function of \<open>max_tokens\<close>
  and the prompt. It returns the prompt verbatim when \<open>max_tokens\<close> is \<^verbatim>\<open>None\<close> and also
  when it is \<open>0\<close>; for a positive \<open>max_tokens\<close> it returns exactly \<open>max_tokens\<close> repetitions
  of \<^verbatim>\<open>text\<close> joined by single spaces (\<open>5 * max_tokens - 1\<close> characters); for a negative
  \<open>max_tokens\<close> it returns the empty string.
\<close>

theorem MockLLM_complete_text:
  "(max_tokens self = None \<longrightarrow> completion_text (complete self prompt) = prompt) \<and>
   (max_tokens self = Some 0 \<longrightarrow> completion_text (complete self prompt) = prompt) \<and>
   (\<forall>n. max_tokens self = Some n \<and> 0 < n \<longrightarrow>
      completion_text (complete self prompt) = concat (replicate (nat n - 1) ''text '') @ ''text'' \<and>
      completion_text (complete self prompt) = join '' '' (replicate (nat n) ''text'') \<and>
      int (length (completion_text (complete self prompt))) = 5 * n - 1) \<and>
   (\<forall>n. max_tokens self = Some n \<and> n < 0 \<longrightarrow> completion_text (complete self prompt) = [])"
proof (intro conjI allI impI)
  assume "max_tokens self = None"
  then show "completion_text (complete self prompt) = prompt"
    by (simp add: complete_def)
next
  assume "max_tokens self = Some 0"
  then show "completion_text (complete self prompt) = prompt"
    by (simp add: complete_def)
next
  fix n assume h: "max_tokens self = Some n \<and> 0 < n"
  then have t: "completion_text (complete self prompt) = generate_text n"
    by (simp add: complete_def)
  show "completion_text (complete self prompt) = concat (replicate (nat n - 1) ''text '') @ ''text''"
    using h t generate_text_pos by simp
  show "completion_text (complete self prompt) = join '' '' (replicate (nat n) ''text'')"
    using t by (simp add: generate_text_def map_const_upt)
  have "length (generate_text n) = (nat n - 1) * 5 + 4"
    using h by (simp add: generate_text_pos length_concat_replicate)
  moreover from h have "int (nat n - 1) = n - 1"
    by arith
  ultimately show "int (length (completion_text (complete self prompt))) = 5 * n - 1"
    using t by simp
next
  fix n assume "max_tokens self = Some n \<and> n < 0"
  then show "completion_text (complete self prompt) = []"
    by (simp add: complete_def generate_text_nonpos)
qed

theorem MockLLM_complete_text_witness:
  "completion_text (complete \<lparr>max_tokens = None\<rparr> ''hello world'') = ''hello world'' \<and>
   completion_text (complete \<lparr>max_tokens = Some 0\<rparr> ''hello world'') = ''hello world'' \<and>
   completion_text (complete \<lparr>max_tokens = Some 3\<rparr> ''hello world'') = ''text text text'' \<and>
   completion_text (complete \<lparr>max_tokens = Some (- 2)\<rparr> ''hello world'') = []"
  using MockLLM_complete_text [of "\<lparr>max_tokens = None\<rparr>" "''hello world''"]
    MockLLM_complete_text [of "\<lparr>max_tokens = Some 0\<rparr>" "''hello world''"]
    MockLLM_complete_text [of "\<lparr>max_tokens = Some 3\<rparr>" "''hello world''"]
    MockLLM_complete_text [of "\<lparr>max_tokens = Some (- 2)\<rparr>" "''hello world''"]
  by (simp add: numeral_3_eq_3)

text \<open>
  C10 as stated fails when \<open>max_tokens\<close> is set to \<open>0\<close>: zero repetitions of
  \<^verbatim>\<open>text\<close> is the empty string, and the code returns the prompt.
\<close>

theorem MockLLM_complete_zero_counterexample:
  "completion_text (complete \<lparr>max_tokens = Some 0\<rparr> ''hello world'') = ''hello world'' \<and>
   join '' '' (replicate (nat 0) ''text'') = [] \<and>
   completion_text (complete \<lparr>max_tokens = Some 0\<rparr> ''hello world'')
     \<noteq> join '' '' (replicate (nat 0) ''text'')"
  by (simp add: complete_def)

section \<open>Properties of the query engine\<close>

subsection \<open>Filling the default templates\<close>

lemma answer_prompt_format:
  "Prompt_format DEFAULT_KG_RESPONSE_ANSWER_PROMPT
     [(''query_str'', PyStr q), (''kg_query_str'', PyStr g), (''kg_response_str'', PyStr r)] =
   Inr (''\<newline>The original question is given below.\<newline>'' @
        ''This question has been translated into a Graph Database query.\<newline>'' @
        ''Both the Graph query and the response are given below.\<newline>'' @
        ''Given the Graph Query response, synthesise a response to the original question.\<newline>'' @
        ''\<newline>'' @
        ''Original question: '' @ q @ ''\<newline>'' @
        ''Graph query: '' @ g @ ''\<newline>'' @
        ''Graph response: '' @ r @ ''\<newline>'' @
        ''Response: \<newline>'')"
  by (simp add: Prompt_format_def DEFAULT_KG_RESPONSE_ANSWER_PROMPT_def
        DEFAULT_KG_RESPONSE_ANSWER_PROMPT_TMPL_def dict_update_def)

lemma nebula_prompt_format:
  "Prompt_format DEFAULT_NEBULAGRAPH_NL2CYPHER_PROMPT
     [(''query_str'', PyStr q), (''schema'', PyStr s)] =
   Inr (''\<newline>'' @
     ''Generate NebulaGraph query from natural language.\<newline>'' @
     ''Use only the provided relationship types and properties in the schema.\<newline>'' @
     ''Do not use any other relationship types or properties that are not provided.\<newline>'' @
     ''Schema:\<newline>'' @
     ''---\<newline>'' @
     s @ ''\<newline>'' @
     ''---\<newline>'' @
     ''Note: NebulaGraph speaks a dialect of Cypher, comparing to standard Cypher:\<newline>'' @
     ''\<newline>'' @
     ''1. it uses double equals sign for comparison: `==` rather than `=`\<newline>'' @
     ''2. it needs explicit label specification when referring to node properties, i.e.\<newline>'' @
     ''v is a variable of a node, and we know its label is Foo, v.`foo`.name is correct\<newline>'' @
     ''while v.name is not.\<newline>'' @
     ''\<newline>'' @
     ''For example, see this diff between standard and NebulaGraph Cypher dialect:\<newline>'' @
     ''```diff\<newline>'' @
     ''< MATCH (p:person)-[:directed]->(m:movie) WHERE m.name = 'The Godfather'\<newline>'' @
     ''< RETURN p.name;\<newline>'' @
     ''---\<newline>'' @
     ''> MATCH (p:`person`)-[:directed]->(m:`movie`) WHERE m.`movie`.`name` == 'The Godfather'\<newline>'' @
     ''> RETURN p.`person`.`name`;\<newline>'' @
     ''```\<newline>'' @
     ''\<newline>'' @
     ''Question: '' @ q @ ''\<newline>'' @
     ''\<newline>'' @
     ''NebulaGraph Cypher dialect query:\<newline>'')"
  by (simp add: Prompt_format_def DEFAULT_NEBULAGRAPH_NL2CYPHER_PROMPT_def
        DEFAULT_NEBULAGRAPH_NL2CYPHER_PROMPT_TMPL_def dict_update_def)

lemma nebula_missing_schema:
  "Prompt_format DEFAULT_NEBULAGRAPH_NL2CYPHER_PROMPT [(''query_str'', PyStr q)] = Inl (KeyError ''schema'')"
  by (simp add: Prompt_format_def DEFAULT_NEBULAGRAPH_NL2CYPHER_PROMPT_def
        DEFAULT_NEBULAGRAPH_NL2CYPHER_PROMPT_TMPL_def dict_update_def)


subsection \<open>The runs of the two entry points\<close>

lemmas engine_defs =
  engine_query_def engine_aquery_def generate_query_def agenerate_query_def
  start_event_def end_event_def log_call_def on_event_start_def on_event_end_def
  new_events_def new_calls_def Let_def

lemmas fixture_defs =
  engine_of_def fixture_graph_store_def failing_graph_store_def fixture_llm_predictor_def
  fixture_synthesizer_def fixture_question_def fixture_query_def world0_def

lemma generate_query_result:
  "fst (generate_query self qs w) =
     predict (llm_predictor (service_context self)) (graph_query_synthesis_prompt self)
       (generation_args self qs)"
  "fst (agenerate_query self qs w) =
     apredict (llm_predictor (service_context self)) (graph_query_synthesis_prompt self)
       (generation_args self qs)"
  by (simp_all add: generate_query_def agenerate_query_def Let_def)

text \<open>The four stages in order; each lemma fixes the results of the stages before the last.\<close>

lemma engine_query_generation_error:
  assumes "fst (generate_query self (query_str qb) w) = Inl e"
  shows "fst (engine_query self qb w) = Inl e"
    and "new_events w (snd (engine_query self qb w)) =
           [EventStart QUERY [(Ev QUERY_STR, Val (PyStr (query_str qb)))]
              (next_id (callback_manager w))]"
    and "new_calls w (snd (engine_query self qb w)) =
           [Predict (graph_query_synthesis_prompt self) (generation_args self (query_str qb))]"
  using assms by (simp_all add: engine_defs)

lemma engine_query_backend_error:
  assumes "fst (generate_query self (query_str qb) w) = Inr gq"
    and "query (self_graph_store self) gq = Inl e"
  shows "fst (engine_query self qb w) = Inl e"
    and "new_events w (snd (engine_query self qb w)) =
           [EventStart QUERY [(Ev QUERY_STR, Val (PyStr (query_str qb)))]
              (next_id (callback_manager w)),
            EventStart RETRIEVE [(Ev QUERY_STR, Val (PyStr gq))]
              (Suc (next_id (callback_manager w)))]"
    and "new_calls w (snd (engine_query self qb w)) =
           [Predict (graph_query_synthesis_prompt self) (generation_args self (query_str qb)),
            GraphQuery gq]"
  using assms by (simp_all add: engine_defs)

lemma engine_query_format_error:
  assumes "fst (generate_query self (query_str qb) w) = Inr gq"
    and "query (self_graph_store self) gq = Inr resp"
    and "Prompt_format (graph_response_answer_prompt self) (answer_args (query_str qb) gq resp)
           = Inl e"
  shows "fst (engine_query self qb w) = Inl e"
    and "new_events w (snd (engine_query self qb w)) =
           [EventStart QUERY [(Ev QUERY_STR, Val (PyStr (query_str qb)))]
              (next_id (callback_manager w)),
            EventStart RETRIEVE [(Ev QUERY_STR, Val (PyStr gq))]
              (Suc (next_id (callback_manager w))),
            EventEnd RETRIEVE [(Ev RESPONSE, Val (PyStr resp))]
              (Suc (next_id (callback_manager w)))]"
    and "new_calls w (snd (engine_query self qb w)) =
           [Predict (graph_query_synthesis_prompt self) (generation_args self (query_str qb)),
            GraphQuery gq]"
  using assms by (simp_all add: engine_defs)

lemma engine_query_synthesis:
  assumes "fst (generate_query self (query_str qb) w) = Inr gq"
    and "query (self_graph_store self) gq = Inr resp"
    and "Prompt_format (graph_response_answer_prompt self) (answer_args (query_str qb) gq resp)
           = Inr filled"
  shows "fst (engine_query self qb w) =
           synthesize (response_synthesizer self) qb [evidence_node self (query_str qb) gq resp filled]"
    and "new_calls w (snd (engine_query self qb w)) =
           [Predict (graph_query_synthesis_prompt self) (generation_args self (query_str qb)),
            GraphQuery gq,
            Synthesize qb [evidence_node self (query_str qb) gq resp filled]]"
    and "new_events w (snd (engine_query self qb w)) =
           [EventStart QUERY [(Ev QUERY_STR, Val (PyStr (query_str qb)))]
              (next_id (callback_manager w)),
            EventStart RETRIEVE [(Ev QUERY_STR, Val (PyStr gq))]
              (Suc (next_id (callback_manager w))),
            EventEnd RETRIEVE [(Ev RESPONSE, Val (PyStr resp))]
              (Suc (next_id (callback_manager w)))] @
           (case synthesize (response_synthesizer self) qb
                   [evidence_node self (query_str qb) gq resp filled] of
              Inl e \<Rightarrow> []
            | Inr r \<Rightarrow>
                [EventEnd QUERY [(Ev RESPONSE, Val (PyStr r))] (next_id (callback_manager w))])"
  using assms by (simp_all add: engine_defs split: sum.splits)

lemma engine_aquery_generation_error:
  assumes "fst (agenerate_query self (query_str qb) w) = Inl e"
  shows "fst (engine_aquery self qb w) = Inl e"
    and "new_events w (snd (engine_aquery self qb w)) =
           [EventStart QUERY [(Ev QUERY_STR, Val (PyStr (query_str qb)))]
              (next_id (callback_manager w))]"
    and "new_calls w (snd (engine_aquery self qb w)) =
           [APredict (graph_query_synthesis_prompt self) (generation_args self (query_str qb))]"
  using assms by (simp_all add: engine_defs)

lemma engine_aquery_backend_error:
  assumes "fst (agenerate_query self (query_str qb) w) = Inr gq"
    and "query (self_graph_store self) gq = Inl e"
  shows "fst (engine_aquery self qb w) = Inl e"
    and "new_events w (snd (engine_aquery self qb w)) =
           [EventStart QUERY [(Ev QUERY_STR, Val (PyStr (query_str qb)))]
              (next_id (callback_manager w)),
            EventStart RETRIEVE [(Ev QUERY_STR, Val (PyStr gq))]
              (Suc (next_id (callback_manager w)))]"
    and "new_calls w (snd (engine_aquery self qb w)) =
           [APredict (graph_query_synthesis_prompt self) (generation_args self (query_str qb)),
            GraphQuery gq]"
  using assms by (simp_all add: engine_defs)

lemma engine_aquery_format_error:
  assumes "fst (agenerate_query self (query_str qb) w) = Inr gq"
    and "query (self_graph_store self) gq = Inr resp"
    and "Prompt_format (graph_response_answer_prompt self) (answer_args (query_str qb) gq resp)
           = Inl e"
  shows "fst (engine_aquery self qb w) = Inl e"
    and "new_events w (snd (engine_aquery self qb w)) =
           [EventStart QUERY [(Ev QUERY_STR, Val (PyStr (query_str qb)))]
              (next_id (callback_manager w)),
            EventStart RETRIEVE [(Ev QUERY_STR, Val (PyStr gq))]
              (Suc (next_id (callback_manager w))),
            EventEnd RETRIEVE [(Ev RESPONSE, Val (PyStr resp))]
              (Suc (next_id (callback_manager w)))]"
    and "new_calls w (snd (engine_aquery self qb w)) =
           [APredict (graph_query_synthesis_prompt self) (generation_args self (query_str qb)),
            GraphQuery gq]"
  using assms by (simp_all add: engine_defs)

lemma engine_aquery_synthesis:
  assumes "fst (agenerate_query self (query_str qb) w) = Inr gq"
    and "query (self_graph_store self) gq = Inr resp"
    and "Prompt_format (graph_response_answer_prompt self) (answer_args (query_str qb) gq resp)
           = Inr filled"
  shows "fst (engine_aquery self qb w) =
           asynthesize (response_synthesizer self) qb [evidence_node self (query_str qb) gq resp filled]"
    and "new_calls w (snd (engine_aquery self qb w)) =
           [APredict (graph_query_synthesis_prompt self) (generation_args self (query_str qb)),
            GraphQuery gq,
            ASynthesize qb [evidence_node self (query_str qb) gq resp filled]]"
    and "new_events w (snd (engine_aquery self qb w)) =
           [EventStart QUERY [(Ev QUERY_STR, Val (PyStr (query_str qb)))]
              (next_id (callback_manager w)),
            EventStart RETRIEVE [(Ev QUERY_STR, Val (PyStr gq))]
              (Suc (next_id (callback_manager w))),
            EventEnd RETRIEVE [(Ev RESPONSE, Val (PyStr resp))]
              (Suc (next_id (callback_manager w)))] @
           (case asynthesize (response_synthesizer self) qb
                   [evidence_node self (query_str qb) gq resp filled] of
              Inl e \<Rightarrow> []
            | Inr r \<Rightarrow>
                [EventEnd QUERY [(Ev RESPONSE, Val (PyStr r))] (next_id (callback_manager w))])"
  using assms by (simp_all add: engine_defs split: sum.splits)

text \<open>Every run is one of the four cases.\<close>

lemma engine_query_cases:
  obtains (generation_error) e where "fst (generate_query self (query_str qb) w) = Inl e"
  | (backend_error) gq e where "fst (generate_query self (query_str qb) w) = Inr gq"
      "query (self_graph_store self) gq = Inl e"
  | (format_error) gq resp e where "fst (generate_query self (query_str qb) w) = Inr gq"
      "query (self_graph_store self) gq = Inr resp"
      "Prompt_format (graph_response_answer_prompt self) (answer_args (query_str qb) gq resp) = Inl e"
  | (synthesis) gq resp filled where "fst (generate_query self (query_str qb) w) = Inr gq"
      "query (self_graph_store self) gq = Inr resp"
      "Prompt_format (graph_response_answer_prompt self) (answer_args (query_str qb) gq resp) = Inr filled"
proof (cases "fst (generate_query self (query_str qb) w)")
  case (Inl e)
  then show ?thesis by (rule generation_error)
next
  case g: (Inr gq)
  show ?thesis
  proof (cases "query (self_graph_store self) gq")
    case (Inl e)
    with g show ?thesis by (rule backend_error)
  next
    case r: (Inr resp)
    show ?thesis
    proof (cases "Prompt_format (graph_response_answer_prompt self)
                    (answer_args (query_str qb) gq resp)")
      case (Inl e)
      with g r show ?thesis by (rule format_error)
    next
      case (Inr filled)
      with g r show ?thesis by (rule synthesis)
    qed
  qed
qed

lemma engine_aquery_cases:
  obtains (generation_error) e where "fst (agenerate_query self (query_str qb) w) = Inl e"
  | (backend_error) gq e where "fst (agenerate_query self (query_str qb) w) = Inr gq"
      "query (self_graph_store self) gq = Inl e"
  | (format_error) gq resp e where "fst (agenerate_query self (query_str qb) w) = Inr gq"
      "query (self_graph_store self) gq = Inr resp"
      "Prompt_format (graph_response_answer_prompt self) (answer_args (query_str qb) gq resp) = Inl e"
  | (synthesis) gq resp filled where "fst (agenerate_query self (query_str qb) w) = Inr gq"
      "query (self_graph_store self) gq = Inr resp"
      "Prompt_format (graph_response_answer_prompt self) (answer_args (query_str qb) gq resp) = Inr filled"
proof (cases "fst (agenerate_query self (query_str qb) w)")
  case (Inl e)
  then show ?thesis by (rule generation_error)
next
  case g: (Inr gq)
  show ?thesis
  proof (cases "query (self_graph_store self) gq")
    case (Inl e)
    with g show ?thesis by (rule backend_error)
  next
    case r: (Inr resp)
    show ?thesis
    proof (cases "Prompt_format (graph_response_answer_prompt self)
                    (answer_args (query_str qb) gq resp)")
      case (Inl e)
      with g r show ?thesis by (rule format_error)
    next
      case (Inr filled)
      with g r show ?thesis by (rule synthesis)
    qed
  qed
qed

text \<open>
  C1 (as amended). When \<^verbatim>\<open>graph_store.query\<close> raises in a call of \<^verbatim>\<open>_query\<close> or
  \<^verbatim>\<open>_aquery\<close>, the exception reaches the caller unchanged and at once. The call has opened
  the QUERY span and the RETRIEVE span and closes neither: the events it emitted are the two
  openings, and both spans are left open.
\<close>

theorem backend_failure_leaves_spans_open:
  "(fst (generate_query self (query_str qb) w) = Inr gq \<and> query (self_graph_store self) gq = Inl e \<longrightarrow>
      fst (engine_query self qb w) = Inl e \<and>
      new_events w (snd (engine_query self qb w)) =
        [EventStart QUERY [(Ev QUERY_STR, Val (PyStr (query_str qb)))] (next_id (callback_manager w)),
         EventStart RETRIEVE [(Ev QUERY_STR, Val (PyStr gq))] (Suc (next_id (callback_manager w)))] \<and>
      open_spans (new_events w (snd (engine_query self qb w))) =
        [(QUERY, next_id (callback_manager w)), (RETRIEVE, Suc (next_id (callback_manager w)))]) \<and>
   (fst (agenerate_query self (query_str qb) w) = Inr gq \<and> query (self_graph_store self) gq = Inl e \<longrightarrow>
      fst (engine_aquery self qb w) = Inl e \<and>
      new_events w (snd (engine_aquery self qb w)) =
        [EventStart QUERY [(Ev QUERY_STR, Val (PyStr (query_str qb)))] (next_id (callback_manager w)),
         EventStart RETRIEVE [(Ev QUERY_STR, Val (PyStr gq))] (Suc (next_id (callback_manager w)))] \<and>
      open_spans (new_events w (snd (engine_aquery self qb w))) =
        [(QUERY, next_id (callback_manager w)), (RETRIEVE, Suc (next_id (callback_manager w)))])"
  by (simp add: engine_defs open_spans_def)

theorem backend_failure_leaves_spans_open_witness:
  "fst (engine_query (engine_of failing_graph_store) fixture_question world0) =
     Inl (Raised ''SemanticError: no such edge type'') \<and>
   open_spans (new_events world0
     (snd (engine_query (engine_of failing_graph_store) fixture_question world0))) =
     [(QUERY, 0), (RETRIEVE, 1)] \<and>
   fst (engine_aquery (engine_of failing_graph_store) fixture_question world0) =
     Inl (Raised ''SemanticError: no such edge type'') \<and>
   open_spans (new_events world0
     (snd (engine_aquery (engine_of failing_graph_store) fixture_question world0))) =
     [(QUERY, 0), (RETRIEVE, 1)]"
proof -
  have g: "fst (generate_query (engine_of failing_graph_store) (query_str fixture_question) world0)
             = Inr fixture_query"
    by (simp add: generate_query_def engine_of_def fixture_llm_predictor_def Let_def)
  have ag: "fst (agenerate_query (engine_of failing_graph_store) (query_str fixture_question) world0)
             = Inr fixture_query"
    by (simp add: agenerate_query_def engine_of_def fixture_llm_predictor_def Let_def)
  have q: "query (self_graph_store (engine_of failing_graph_store)) fixture_query
             = Inl (Raised ''SemanticError: no such edge type'')"
    by (simp add: engine_of_def failing_graph_store_def)
  have n: "next_id (callback_manager world0) = 0"
    by (simp add: world0_def)
  show ?thesis
    using backend_failure_leaves_spans_open
      [of "engine_of failing_graph_store" fixture_question world0 fixture_query
          "Raised ''SemanticError: no such edge type''"] g ag q n
    by (simp add: open_spans_def)
qed

text \<open>
  C1 as stated fails: with a graph store whose \<^verbatim>\<open>query\<close> raises, the caller receives the
  exception while the callback manager has recorded the two openings and no closing event.
\<close>

theorem backend_failure_spans_counterexample:
  "fst (engine_query (engine_of failing_graph_store) fixture_question world0) =
     Inl (Raised ''SemanticError: no such edge type'') \<and>
   events (callback_manager
     (snd (engine_query (engine_of failing_graph_store) fixture_question world0))) =
     [EventStart QUERY [(Ev QUERY_STR, Val (PyStr ''Which actor starred in the movie X?''))] 0,
      EventStart RETRIEVE [(Ev QUERY_STR, Val (PyStr fixture_query))] 1] \<and>
   span_ends (events (callback_manager
     (snd (engine_query (engine_of failing_graph_store) fixture_question world0)))) = []"
  by (simp add: engine_defs engine_of_def failing_graph_store_def fixture_llm_predictor_def
        fixture_question_def world0_def)


text \<open>
  C2. When the asynchronous twins of the completion capability and of the response
  synthesizer return what the synchronous methods return (the same deterministic fixtures),
  \<^verbatim>\<open>_aquery\<close> gives the same result as \<^verbatim>\<open>_query\<close> for every query bundle, a final
  answer or an exception, and leaves the callback manager in the same state: the same span
  events with the same kinds, payloads and ids, in the same order.
\<close>

theorem sync_async_agree:
  assumes "apredict (llm_predictor (service_context self)) =
           predict (llm_predictor (service_context self))"
    and "asynthesize (response_synthesizer self) = synthesize (response_synthesizer self)"
  shows "fst (engine_aquery self qb w) = fst (engine_query self qb w) \<and>
         callback_manager (snd (engine_aquery self qb w)) =
           callback_manager (snd (engine_query self qb w)) \<and>
         new_events w (snd (engine_aquery self qb w)) =
           new_events w (snd (engine_query self qb w))"
  using assms by (simp add: engine_defs split: sum.splits)

theorem sync_async_agree_witness:
  "fst (engine_aquery (engine_of fixture_graph_store) fixture_question world0) =
     fst (engine_query (engine_of fixture_graph_store) fixture_question world0) \<and>
   callback_manager (snd (engine_aquery (engine_of fixture_graph_store) fixture_question world0)) =
     callback_manager (snd (engine_query (engine_of fixture_graph_store) fixture_question world0)) \<and>
   new_events world0 (snd (engine_aquery (engine_of fixture_graph_store) fixture_question world0)) =
     new_events world0 (snd (engine_query (engine_of fixture_graph_store) fixture_question world0))"
proof -
  have p: "apredict (llm_predictor (service_context (engine_of fixture_graph_store))) =
           predict (llm_predictor (service_context (engine_of fixture_graph_store)))"
    by (simp add: engine_of_def fixture_llm_predictor_def)
  have s: "asynthesize (response_synthesizer (engine_of fixture_graph_store)) =
           synthesize (response_synthesizer (engine_of fixture_graph_store))"
    by (simp add: engine_of_def fixture_synthesizer_def)
  show ?thesis
    by (rule sync_async_agree [OF p s])
qed



text \<open>The evidence units a call hands to the synthesizer, and the backend queries it issues.\<close>

lemma engine_query_nodes:
  "synthesized_nodes (new_calls w (snd (engine_query self qb w))) =
     (case fst (generate_query self (query_str qb) w) of
        Inl e \<Rightarrow> []
      | Inr gq \<Rightarrow>
          (case query (self_graph_store self) gq of
             Inl e \<Rightarrow> []
           | Inr resp \<Rightarrow>
               (case Prompt_format (graph_response_answer_prompt self)
                       (answer_args (query_str qb) gq resp) of
                  Inl e \<Rightarrow> []
                | Inr filled \<Rightarrow> [evidence_node self (query_str qb) gq resp filled])))"
proof (cases rule: engine_query_cases [of self qb w])
  case (generation_error e)
  then show ?thesis by (simp add: engine_query_generation_error(3))
next
  case (backend_error gq e)
  then show ?thesis by (simp add: engine_query_backend_error(3))
next
  case (format_error gq resp e)
  then show ?thesis by (simp add: engine_query_format_error(3))
next
  case (synthesis gq resp filled)
  then show ?thesis by (simp add: engine_query_synthesis(2))
qed

lemma engine_aquery_nodes:
  "synthesized_nodes (new_calls w (snd (engine_aquery self qb w))) =
     (case fst (agenerate_query self (query_str qb) w) of
        Inl e \<Rightarrow> []
      | Inr gq \<Rightarrow>
          (case query (self_graph_store self) gq of
             Inl e \<Rightarrow> []
           | Inr resp \<Rightarrow>
               (case Prompt_format (graph_response_answer_prompt self)
                       (answer_args (query_str qb) gq resp) of
                  Inl e \<Rightarrow> []
                | Inr filled \<Rightarrow> [evidence_node self (query_str qb) gq resp filled])))"
proof (cases rule: engine_aquery_cases [of self qb w])
  case (generation_error e)
  then show ?thesis by (simp add: engine_aquery_generation_error(3))
next
  case (backend_error gq e)
  then show ?thesis by (simp add: engine_aquery_backend_error(3))
next
  case (format_error gq resp e)
  then show ?thesis by (simp add: engine_aquery_format_error(3))
next
  case (synthesis gq resp filled)
  then show ?thesis by (simp add: engine_aquery_synthesis(2))
qed

lemma engine_query_success_events:
  assumes "fst (engine_query self qb w) = Inr r"
  shows "\<exists>gq resp.
           new_events w (snd (engine_query self qb w)) =
             [EventStart QUERY [(Ev QUERY_STR, Val (PyStr (query_str qb)))]
                (next_id (callback_manager w)),
              EventStart RETRIEVE [(Ev QUERY_STR, Val (PyStr gq))]
                (Suc (next_id (callback_manager w))),
              EventEnd RETRIEVE [(Ev RESPONSE, Val (PyStr resp))]
                (Suc (next_id (callback_manager w))),
              EventEnd QUERY [(Ev RESPONSE, Val (PyStr r))]
                (next_id (callback_manager w))]"
proof (cases rule: engine_query_cases [of self qb w])
  case (generation_error e)
  with assms show ?thesis by (simp add: engine_query_generation_error(1))
next
  case (backend_error gq e)
  with assms show ?thesis by (simp add: engine_query_backend_error(1))
next
  case (format_error gq resp e)
  with assms show ?thesis by (simp add: engine_query_format_error(1))
next
  case (synthesis gq resp filled)
  from engine_query_synthesis(1) [OF synthesis] assms
  have "synthesize (response_synthesizer self) qb
          [evidence_node self (query_str qb) gq resp filled] = Inr r"
    by simp
  with engine_query_synthesis(3) [OF synthesis] show ?thesis
    by simp
qed

lemma engine_aquery_success_events:
  assumes "fst (engine_aquery self qb w) = Inr r"
  shows "\<exists>gq resp.
           new_events w (snd (engine_aquery self qb w)) =
             [EventStart QUERY [(Ev QUERY_STR, Val (PyStr (query_str qb)))]
                (next_id (callback_manager w)),
              EventStart RETRIEVE [(Ev QUERY_STR, Val (PyStr gq))]
                (Suc (next_id (callback_manager w))),
              EventEnd RETRIEVE [(Ev RESPONSE, Val (PyStr resp))]
                (Suc (next_id (callback_manager w))),
              EventEnd QUERY [(Ev RESPONSE, Val (PyStr r))]
                (next_id (callback_manager w))]"
proof (cases rule: engine_aquery_cases [of self qb w])
  case (generation_error e)
  with assms show ?thesis by (simp add: engine_aquery_generation_error(1))
next
  case (backend_error gq e)
  with assms show ?thesis by (simp add: engine_aquery_backend_error(1))
next
  case (format_error gq resp e)
  with assms show ?thesis by (simp add: engine_aquery_format_error(1))
next
  case (synthesis gq resp filled)
  from engine_aquery_synthesis(1) [OF synthesis] assms
  have "asynthesize (response_synthesizer self) qb
          [evidence_node self (query_str qb) gq resp filled] = Inr r"
    by simp
  with engine_aquery_synthesis(3) [OF synthesis] show ?thesis
    by simp
qed

lemma open_spans_nested:
  "open_spans [EventStart k1 p1 i, EventStart k2 p2 j, EventEnd k2 p3 j, EventEnd k1 p4 i] = []"
  by (simp add: open_spans_def)

text \<open>
  C3. In every call of \<^verbatim>\<open>_query\<close> or \<^verbatim>\<open>_aquery\<close> that returns an answer, the events the
  call emits are exactly four: QUERY opens, RETRIEVE opens, RETRIEVE closes, QUERY closes.
  Each closing event carries the id that the opening of its span returned (an \<open>EventStart\<close>
  entry holds the id its \<open>on_event_start\<close> returned), the two ids differ, and no span is
  left open.
\<close>

theorem successful_call_spans:
  "(fst (engine_query self qb w) = Inr r \<longrightarrow>
      (\<exists>gq resp.
         new_events w (snd (engine_query self qb w)) =
           [EventStart QUERY [(Ev QUERY_STR, Val (PyStr (query_str qb)))]
              (next_id (callback_manager w)),
            EventStart RETRIEVE [(Ev QUERY_STR, Val (PyStr gq))]
              (Suc (next_id (callback_manager w))),
            EventEnd RETRIEVE [(Ev RESPONSE, Val (PyStr resp))]
              (Suc (next_id (callback_manager w))),
            EventEnd QUERY [(Ev RESPONSE, Val (PyStr r))]
              (next_id (callback_manager w))]) \<and>
      open_spans (new_events w (snd (engine_query self qb w))) = []) \<and>
   (fst (engine_aquery self qb w) = Inr r \<longrightarrow>
      (\<exists>gq resp.
         new_events w (snd (engine_aquery self qb w)) =
           [EventStart QUERY [(Ev QUERY_STR, Val (PyStr (query_str qb)))]
              (next_id (callback_manager w)),
            EventStart RETRIEVE [(Ev QUERY_STR, Val (PyStr gq))]
              (Suc (next_id (callback_manager w))),
            EventEnd RETRIEVE [(Ev RESPONSE, Val (PyStr resp))]
              (Suc (next_id (callback_manager w))),
            EventEnd QUERY [(Ev RESPONSE, Val (PyStr r))]
              (next_id (callback_manager w))]) \<and>
      open_spans (new_events w (snd (engine_aquery self qb w))) = [])"
proof (intro conjI impI)
  assume ok: "fst (engine_query self qb w) = Inr r"
  from engine_query_success_events [OF ok]
  show "\<exists>gq resp.
         new_events w (snd (engine_query self qb w)) =
           [EventStart QUERY [(Ev QUERY_STR, Val (PyStr (query_str qb)))]
              (next_id (callback_manager w)),
            EventStart RETRIEVE [(Ev QUERY_STR, Val (PyStr gq))]
              (Suc (next_id (callback_manager w))),
            EventEnd RETRIEVE [(Ev RESPONSE, Val (PyStr resp))]
              (Suc (next_id (callback_manager w))),
            EventEnd QUERY [(Ev RESPONSE, Val (PyStr r))]
              (next_id (callback_manager w))]" .
  from engine_query_success_events [OF ok]
  show "open_spans (new_events w (snd (engine_query self qb w))) = []"
    by (auto simp: open_spans_nested)
next
  assume ok: "fst (engine_aquery self qb w) = Inr r"
  from engine_aquery_success_events [OF ok]
  show "\<exists>gq resp.
         new_events w (snd (engine_aquery self qb w)) =
           [EventStart QUERY [(Ev QUERY_STR, Val (PyStr (query_str qb)))]
              (next_id (callback_manager w)),
            EventStart RETRIEVE [(Ev QUERY_STR, Val (PyStr gq))]
              (Suc (next_id (callback_manager w))),
            EventEnd RETRIEVE [(Ev RESPONSE, Val (PyStr resp))]
              (Suc (next_id (callback_manager w))),
            EventEnd QUERY [(Ev RESPONSE, Val (PyStr r))]
              (next_id (callback_manager w))]" .
  from engine_aquery_success_events [OF ok]
  show "open_spans (new_events w (snd (engine_aquery self qb w))) = []"
    by (auto simp: open_spans_nested)
qed

lemma fixture_run:
  "fst (generate_query (engine_of fixture_graph_store) (query_str fixture_question) w) =
     Inr fixture_query"
  "fst (agenerate_query (engine_of fixture_graph_store) (query_str fixture_question) w) =
     Inr fixture_query"
  "query (self_graph_store (engine_of fixture_graph_store)) fixture_query = Inr ''Actor1''"
  "synthesize (response_synthesizer (engine_of fixture_graph_store)) q ns =
     Inr ''The actor is Actor1.''"
  "asynthesize (response_synthesizer (engine_of fixture_graph_store)) q ns =
     Inr ''The actor is Actor1.''"
  "graph_response_answer_prompt (engine_of fixture_graph_store) = DEFAULT_KG_RESPONSE_ANSWER_PROMPT"
  "graph_query_synthesis_prompt (engine_of fixture_graph_store) =
     DEFAULT_NEBULAGRAPH_NL2CYPHER_PROMPT"
  "graph_schema (engine_of fixture_graph_store) = ''(actor)-[:starred_in]->(movie)''"
  by (simp_all add: generate_query_def agenerate_query_def Let_def engine_of_def
        fixture_graph_store_def fixture_llm_predictor_def fixture_synthesizer_def)

lemma fixture_success:
  "fst (engine_query (engine_of fixture_graph_store) fixture_question w) =
     Inr ''The actor is Actor1.''"
  "fst (engine_aquery (engine_of fixture_graph_store) fixture_question w) =
     Inr ''The actor is Actor1.''"
proof -
  have f: "Prompt_format (graph_response_answer_prompt (engine_of fixture_graph_store))
             (answer_args (query_str fixture_question) fixture_query ''Actor1'') =
           Inr (''\<newline>The original question is given below.\<newline>'' @
        ''This question has been translated into a Graph Database query.\<newline>'' @
        ''Both the Graph query and the response are given below.\<newline>'' @
        ''Given the Graph Query response, synthesise a response to the original question.\<newline>'' @
        ''\<newline>'' @
        ''Original question: '' @ query_str fixture_question @ ''\<newline>'' @
        ''Graph query: '' @ fixture_query @ ''\<newline>'' @
        ''Graph response: '' @ ''Actor1'' @ ''\<newline>'' @
        ''Response: \<newline>'')"
    unfolding fixture_run(6) by (rule answer_prompt_format)
  show "fst (engine_query (engine_of fixture_graph_store) fixture_question w) =
          Inr ''The actor is Actor1.''"
    using engine_query_synthesis(1) [OF fixture_run(1) fixture_run(3) f]
    by (simp only: fixture_run(4))
  show "fst (engine_aquery (engine_of fixture_graph_store) fixture_question w) =
          Inr ''The actor is Actor1.''"
    using engine_aquery_synthesis(1) [OF fixture_run(2) fixture_run(3) f]
    by (simp only: fixture_run(5))
qed

theorem successful_call_spans_witness:
  "fst (engine_query (engine_of fixture_graph_store) fixture_question world0) =
     Inr ''The actor is Actor1.'' \<and>
   (\<exists>gq resp.
      new_events world0 (snd (engine_query (engine_of fixture_graph_store) fixture_question world0)) =
        [EventStart QUERY [(Ev QUERY_STR, Val (PyStr ''Which actor starred in the movie X?''))] 0,
         EventStart RETRIEVE [(Ev QUERY_STR, Val (PyStr gq))] 1,
         EventEnd RETRIEVE [(Ev RESPONSE, Val (PyStr resp))] 1,
         EventEnd QUERY [(Ev RESPONSE, Val (PyStr ''The actor is Actor1.''))] 0]) \<and>
   open_spans (new_events world0
     (snd (engine_query (engine_of fixture_graph_store) fixture_question world0))) = [] \<and>
   fst (engine_aquery (engine_of fixture_graph_store) fixture_question world0) =
     Inr ''The actor is Actor1.'' \<and>
   open_spans (new_events world0
     (snd (engine_aquery (engine_of fixture_graph_store) fixture_question world0))) = []"
proof -
  have n: "next_id (callback_manager world0) = 0"
      "query_str fixture_question = ''Which actor starred in the movie X?''"
    by (simp_all add: world0_def fixture_question_def)
  show ?thesis
    using successful_call_spans
      [of "engine_of fixture_graph_store" fixture_question world0 "''The actor is Actor1.''"]
      fixture_success [of world0] n
    by simp
qed

subsection \<open>The evidence unit\<close>

text \<open>
  C4 (the code departs from the claim). The evidence unit handed to the response
  synthesizer, in \<^verbatim>\<open>_query\<close> and in \<^verbatim>\<open>_aquery\<close> alike, has no \<^verbatim>\<open>NodeWithScore\<close>
  score: the value \<open>1.0\<close> is the \<^verbatim>\<open>score\<close> keyword of the inner \<^verbatim>\<open>TextNode(...)\<close> call, and
  the \<^verbatim>\<open>score\<close> of the \<^verbatim>\<open>NodeWithScore\<close> is left at \<open>None\<close>.
\<close>

theorem evidence_node_score_unset:
  "(\<forall>n \<in> set (synthesized_nodes (new_calls w (snd (engine_query self qb w)))).
      score n = None \<and> node_score (node n) = Some 1.0) \<and>
   (\<forall>n \<in> set (synthesized_nodes (new_calls w (snd (engine_aquery self qb w)))).
      score n = None \<and> node_score (node n) = Some 1.0)"
  by (auto simp: engine_query_nodes engine_aquery_nodes split: sum.splits)

lemma fixture_format:
  "Prompt_format (graph_response_answer_prompt (engine_of fixture_graph_store))
     (answer_args (query_str fixture_question) fixture_query ''Actor1'') =
   Inr (''\<newline>The original question is given below.\<newline>'' @
        ''This question has been translated into a Graph Database query.\<newline>'' @
        ''Both the Graph query and the response are given below.\<newline>'' @
        ''Given the Graph Query response, synthesise a response to the original question.\<newline>'' @
        ''\<newline>'' @
        ''Original question: '' @ query_str fixture_question @ ''\<newline>'' @
        ''Graph query: '' @ fixture_query @ ''\<newline>'' @
        ''Graph response: '' @ ''Actor1'' @ ''\<newline>'' @
        ''Response: \<newline>'')"
  unfolding fixture_run(6) by (rule answer_prompt_format)

lemma fixture_nodes:
  "synthesized_nodes (new_calls w (snd (engine_query (engine_of fixture_graph_store) fixture_question w))) =
     [evidence_node (engine_of fixture_graph_store) (query_str fixture_question) fixture_query ''Actor1''
        (''\<newline>The original question is given below.\<newline>'' @
        ''This question has been translated into a Graph Database query.\<newline>'' @
        ''Both the Graph query and the response are given below.\<newline>'' @
        ''Given the Graph Query response, synthesise a response to the original question.\<newline>'' @
        ''\<newline>'' @
        ''Original question: '' @ query_str fixture_question @ ''\<newline>'' @
        ''Graph query: '' @ fixture_query @ ''\<newline>'' @
        ''Graph response: '' @ ''Actor1'' @ ''\<newline>'' @
        ''Response: \<newline>'')]"
  "synthesized_nodes (new_calls w (snd (engine_aquery (engine_of fixture_graph_store) fixture_question w))) =
     [evidence_node (engine_of fixture_graph_store) (query_str fixture_question) fixture_query ''Actor1''
        (''\<newline>The original question is given below.\<newline>'' @
        ''This question has been translated into a Graph Database query.\<newline>'' @
        ''Both the Graph query and the response are given below.\<newline>'' @
        ''Given the Graph Query response, synthesise a response to the original question.\<newline>'' @
        ''\<newline>'' @
        ''Original question: '' @ query_str fixture_question @ ''\<newline>'' @
        ''Graph query: '' @ fixture_query @ ''\<newline>'' @
        ''Graph response: '' @ ''Actor1'' @ ''\<newline>'' @
        ''Response: \<newline>'')]"
  unfolding engine_query_nodes engine_aquery_nodes
  by (simp_all only: fixture_run(1,2,3) fixture_format sum.case)

theorem evidence_node_score_unset_witness:
  "map score (synthesized_nodes (new_calls world0
     (snd (engine_query (engine_of fixture_graph_store) fixture_question world0)))) = [None] \<and>
   map score (synthesized_nodes (new_calls world0
     (snd (engine_aquery (engine_of fixture_graph_store) fixture_question world0)))) = [None] \<and>
   None \<noteq> Some (1.0 :: real)"
  using evidence_node_score_unset
    [of world0 "engine_of fixture_graph_store" fixture_question]
  by (simp add: fixture_nodes)

lemma Prompt_format_no_partial:
  "partial_dict prompt = [] \<Longrightarrow> Prompt_format prompt kw = vformat kw None (template prompt)"
  by (simp add: Prompt_format_def dict_update_def)

text \<open>
  C6. Evidence assembly is a function of the question, the generated query, the backend
  result, the schema and the engine's answer prompt. In every call of \<^verbatim>\<open>_query\<close> or
  \<^verbatim>\<open>_aquery\<close> whose generation and backend stages return, exactly one evidence unit is
  handed to the synthesizer whenever filling the answer prompt succeeds: its text is the
  engine's answer prompt filled with \<^verbatim>\<open>query_str\<close>, \<^verbatim>\<open>kg_query_str\<close> and
  \<^verbatim>\<open>kg_response_str\<close> set to the question, the generated query and the backend result,
  and its metadata holds exactly the question, the generated query, the backend result and
  the schema. When filling fails (a missing substitution key) no unit is assembled and the
  call raises that error. With the default answer template filling never fails and the text
  is the template with the three slots replaced, for every question, query and result. For
  a prompt that carries no partial substitutions of its own, filling is the substitution of
  these three arguments into its template.
\<close>

theorem evidence_assembly:
  "(fst (generate_query self (query_str qb) w) = Inr gq \<and>
    query (self_graph_store self) gq = Inr resp \<longrightarrow>
      (\<forall>filled.
         Prompt_format (graph_response_answer_prompt self)
           [(''query_str'', PyStr (query_str qb)), (''kg_query_str'', PyStr gq),
            (''kg_response_str'', PyStr resp)] = Inr filled \<longrightarrow>
         synthesized_nodes (new_calls w (snd (engine_query self qb w))) =
           [\<lparr>node = \<lparr>node_text = filled, node_score = Some 1.0,
                    metadata = [(''query_str'', PyStr (query_str qb)),
                                (''graph_store_query'', PyStr gq),
                                (''graph_store_response'', PyStr resp),
                                (''graph_schema'', PyStr (graph_schema self))]\<rparr>,
             score = None\<rparr>]) \<and>
      (\<forall>e.
         Prompt_format (graph_response_answer_prompt self)
           [(''query_str'', PyStr (query_str qb)), (''kg_query_str'', PyStr gq),
            (''kg_response_str'', PyStr resp)] = Inl e \<longrightarrow>
         synthesized_nodes (new_calls w (snd (engine_query self qb w))) = [] \<and>
         fst (engine_query self qb w) = Inl e) \<and>
      (graph_response_answer_prompt self = DEFAULT_KG_RESPONSE_ANSWER_PROMPT \<longrightarrow>
         synthesized_nodes (new_calls w (snd (engine_query self qb w))) =
           [\<lparr>node = \<lparr>node_text =
                      ''\<newline>The original question is given below.\<newline>'' @
                      ''This question has been translated into a Graph Database query.\<newline>'' @
                      ''Both the Graph query and the response are given below.\<newline>'' @
                      ''Given the Graph Query response, synthesise a response to the original question.\<newline>'' @
                      ''\<newline>'' @
                      ''Original question: '' @ query_str qb @ ''\<newline>'' @
                      ''Graph query: '' @ gq @ ''\<newline>'' @
                      ''Graph response: '' @ resp @ ''\<newline>'' @
                      ''Response: \<newline>'',
                    node_score = Some 1.0,
                    metadata = [(''query_str'', PyStr (query_str qb)),
                                (''graph_store_query'', PyStr gq),
                                (''graph_store_response'', PyStr resp),
                                (''graph_schema'', PyStr (graph_schema self))]\<rparr>,
             score = None\<rparr>])) \<and>
   (fst (agenerate_query self (query_str qb) w) = Inr gq \<and>
    query (self_graph_store self) gq = Inr resp \<longrightarrow>
      (\<forall>filled.
         Prompt_format (graph_response_answer_prompt self)
           [(''query_str'', PyStr (query_str qb)), (''kg_query_str'', PyStr gq),
            (''kg_response_str'', PyStr resp)] = Inr filled \<longrightarrow>
         synthesized_nodes (new_calls w (snd (engine_aquery self qb w))) =
           [\<lparr>node = \<lparr>node_text = filled, node_score = Some 1.0,
                    metadata = [(''query_str'', PyStr (query_str qb)),
                                (''graph_store_query'', PyStr gq),
                                (''graph_store_response'', PyStr resp),
                                (''graph_schema'', PyStr (graph_schema self))]\<rparr>,
             score = None\<rparr>]) \<and>
      (\<forall>e.
         Prompt_format (graph_response_answer_prompt self)
           [(''query_str'', PyStr (query_str qb)), (''kg_query_str'', PyStr gq),
            (''kg_response_str'', PyStr resp)] = Inl e \<longrightarrow>
         synthesized_nodes (new_calls w (snd (engine_aquery self qb w))) = [] \<and>
         fst (engine_aquery self qb w) = Inl e) \<and>
      (graph_response_answer_prompt self = DEFAULT_KG_RESPONSE_ANSWER_PROMPT \<longrightarrow>
         synthesized_nodes (new_calls w (snd (engine_aquery self qb w))) =
           [\<lparr>node = \<lparr>node_text =
                      ''\<newline>The original question is given below.\<newline>'' @
                      ''This question has been translated into a Graph Database query.\<newline>'' @
                      ''Both the Graph query and the response are given below.\<newline>'' @
                      ''Given the Graph Query response, synthesise a response to the original question.\<newline>'' @
                      ''\<newline>'' @
                      ''Original question: '' @ query_str qb @ ''\<newline>'' @
                      ''Graph query: '' @ gq @ ''\<newline>'' @
                      ''Graph response: '' @ resp @ ''\<newline>'' @
                      ''Response: \<newline>'',
                    node_score = Some 1.0,
                    metadata = [(''query_str'', PyStr (query_str qb)),
                                (''graph_store_query'', PyStr gq),
                                (''graph_store_response'', PyStr resp),
                                (''graph_schema'', PyStr (graph_schema self))]\<rparr>,
             score = None\<rparr>])) \<and>
   (partial_dict (graph_response_answer_prompt self) = [] \<longrightarrow>
      Prompt_format (graph_response_answer_prompt self)
        [(''query_str'', PyStr (query_str qb)), (''kg_query_str'', PyStr gq),
         (''kg_response_str'', PyStr resp)] =
      vformat [(''query_str'', PyStr (query_str qb)), (''kg_query_str'', PyStr gq),
               (''kg_response_str'', PyStr resp)] None
        (template (graph_response_answer_prompt self)))"
proof (intro conjI impI allI)
  assume s: "fst (generate_query self (query_str qb) w) = Inr gq \<and>
             query (self_graph_store self) gq = Inr resp"
  {
    fix filled
    assume "Prompt_format (graph_response_answer_prompt self)
              (answer_args (query_str qb) gq resp) = Inr filled"
    with s show "synthesized_nodes (new_calls w (snd (engine_query self qb w))) =
                   [evidence_node self (query_str qb) gq resp filled]"
      by (simp add: engine_query_nodes)
  }
  {
    fix e
    assume f: "Prompt_format (graph_response_answer_prompt self)
                 (answer_args (query_str qb) gq resp) = Inl e"
    with s show "synthesized_nodes (new_calls w (snd (engine_query self qb w))) = []"
      by (simp add: engine_query_nodes)
    from s f show "fst (engine_query self qb w) = Inl e"
      by (simp add: engine_query_format_error(1))
  }
  {
    assume "graph_response_answer_prompt self = DEFAULT_KG_RESPONSE_ANSWER_PROMPT"
    with s show "synthesized_nodes (new_calls w (snd (engine_query self qb w))) =
           [evidence_node self (query_str qb) gq resp
              (''\<newline>The original question is given below.\<newline>'' @
               ''This question has been translated into a Graph Database query.\<newline>'' @
               ''Both the Graph query and the response are given below.\<newline>'' @
               ''Given the Graph Query response, synthesise a response to the original question.\<newline>'' @
               ''\<newline>'' @
               ''Original question: '' @ query_str qb @ ''\<newline>'' @
               ''Graph query: '' @ gq @ ''\<newline>'' @
               ''Graph response: '' @ resp @ ''\<newline>'' @
               ''Response: \<newline>'')]"
      by (simp only: engine_query_nodes answer_prompt_format sum.case)
  }
next
  assume s: "fst (agenerate_query self (query_str qb) w) = Inr gq \<and>
             query (self_graph_store self) gq = Inr resp"
  {
    fix filled
    assume "Prompt_format (graph_response_answer_prompt self)
              (answer_args (query_str qb) gq resp) = Inr filled"
    with s show "synthesized_nodes (new_calls w (snd (engine_aquery self qb w))) =
                   [evidence_node self (query_str qb) gq resp filled]"
      by (simp add: engine_aquery_nodes)
  }
  {
    fix e
    assume f: "Prompt_format (graph_response_answer_prompt self)
                 (answer_args (query_str qb) gq resp) = Inl e"
    with s show "synthesized_nodes (new_calls w (snd (engine_aquery self qb w))) = []"
      by (simp add: engine_aquery_nodes)
    from s f show "fst (engine_aquery self qb w) = Inl e"
      by (simp add: engine_aquery_format_error(1))
  }
  {
    assume "graph_response_answer_prompt self = DEFAULT_KG_RESPONSE_ANSWER_PROMPT"
    with s show "synthesized_nodes (new_calls w (snd (engine_aquery self qb w))) =
           [evidence_node self (query_str qb) gq resp
              (''\<newline>The original question is given below.\<newline>'' @
               ''This question has been translated into a Graph Database query.\<newline>'' @
               ''Both the Graph query and the response are given below.\<newline>'' @
               ''Given the Graph Query response, synthesise a response to the original question.\<newline>'' @
               ''\<newline>'' @
               ''Original question: '' @ query_str qb @ ''\<newline>'' @
               ''Graph query: '' @ gq @ ''\<newline>'' @
               ''Graph response: '' @ resp @ ''\<newline>'' @
               ''Response: \<newline>'')]"
      by (simp only: engine_aquery_nodes answer_prompt_format sum.case)
  }
next
  assume "partial_dict (graph_response_answer_prompt self) = []"
  then show "Prompt_format (graph_response_answer_prompt self)
        (answer_args (query_str qb) gq resp) =
      vformat (answer_args (query_str qb) gq resp) None
        (template (graph_response_answer_prompt self))"
    by (rule Prompt_format_no_partial)
qed

theorem evidence_assembly_witness:
  "synthesized_nodes (new_calls world0
      (snd (engine_query (engine_of fixture_graph_store) fixture_question world0))) =
     [\<lparr>node = \<lparr>node_text =
                ''\<newline>The original question is given below.\<newline>'' @
                ''This question has been translated into a Graph Database query.\<newline>'' @
                ''Both the Graph query and the response are given below.\<newline>'' @
                ''Given the Graph Query response, synthesise a response to the original question.\<newline>'' @
                ''\<newline>'' @
                ''Original question: Which actor starred in the movie X?\<newline>'' @
                ''Graph query: MATCH (a)-[:starred_in]->(m) WHERE m.name == 'X' RETURN a.name\<newline>'' @
                ''Graph response: Actor1\<newline>'' @
                ''Response: \<newline>'',
              node_score = Some 1.0,
              metadata = [(''query_str'', PyStr ''Which actor starred in the movie X?''),
                          (''graph_store_query'',
                           PyStr ''MATCH (a)-[:starred_in]->(m) WHERE m.name == 'X' RETURN a.name''),
                          (''graph_store_response'', PyStr ''Actor1''),
                          (''graph_schema'', PyStr ''(actor)-[:starred_in]->(movie)'')]\<rparr>,
       score = None\<rparr>] \<and>
   synthesized_nodes (new_calls world0
      (snd (engine_aquery (engine_of fixture_graph_store) fixture_question world0))) =
   synthesized_nodes (new_calls world0
      (snd (engine_query (engine_of fixture_graph_store) fixture_question world0)))"
  using evidence_assembly
      [of "engine_of fixture_graph_store" fixture_question world0 fixture_query "''Actor1''"]
    fixture_run(1) [of world0] fixture_run(2) [of world0] fixture_run(3) fixture_run(6)
  by (simp add: fixture_run(8) fixture_question_def fixture_query_def)

subsection \<open>Query generation\<close>

lemma backend_queries_query:
  "backend_queries (new_calls w (snd (engine_query self qb w))) =
     (case fst (generate_query self (query_str qb) w) of
        Inl e \<Rightarrow> []
      | Inr gq \<Rightarrow> [gq])"
proof (cases rule: engine_query_cases [of self qb w])
  case (generation_error e)
  then show ?thesis by (simp add: engine_query_generation_error(3))
next
  case (backend_error gq e)
  then show ?thesis by (simp add: engine_query_backend_error(3))
next
  case (format_error gq resp e)
  then show ?thesis by (simp add: engine_query_format_error(3))
next
  case (synthesis gq resp filled)
  then show ?thesis by (simp add: engine_query_synthesis(2))
qed

lemma backend_queries_aquery:
  "backend_queries (new_calls w (snd (engine_aquery self qb w))) =
     (case fst (agenerate_query self (query_str qb) w) of
        Inl e \<Rightarrow> []
      | Inr gq \<Rightarrow> [gq])"
proof (cases rule: engine_aquery_cases [of self qb w])
  case (generation_error e)
  then show ?thesis by (simp add: engine_aquery_generation_error(3))
next
  case (backend_error gq e)
  then show ?thesis by (simp add: engine_aquery_backend_error(3))
next
  case (format_error gq resp e)
  then show ?thesis by (simp add: engine_aquery_format_error(3))
next
  case (synthesis gq resp filled)
  then show ?thesis by (simp add: engine_aquery_synthesis(2))
qed

lemma generate_query_state:
  "snd (generate_query self qs w) =
     log_call (Predict (graph_query_synthesis_prompt self) (generation_args self qs)) w"
  "snd (agenerate_query self qs w) =
     log_call (APredict (graph_query_synthesis_prompt self) (generation_args self qs)) w"
  by (simp_all add: generate_query_def agenerate_query_def Let_def)

text \<open>
  C7 (as amended). \<^verbatim>\<open>generate_query\<close> does not fill the template itself: it makes one call
  of the completion capability, handing it the engine's unfilled synthesis prompt together
  with the substitutions \<^verbatim>\<open>query_str\<close> (the question) and \<^verbatim>\<open>schema\<close> (the cached schema),
  and returns what that call returns, a string or an exception, unchanged;
  \<^verbatim>\<open>agenerate_query\<close> does the same with the asynchronous twin. It emits no event. In
  \<^verbatim>\<open>_query\<close> and \<^verbatim>\<open>_aquery\<close> the text sent to the graph store is exactly the generated
  query, and nothing is sent when generation raises. With a completion capability that
  fills the prompt it is given and completes the filled text, the text completed is the
  default Nebula template with its \<^verbatim>\<open>{schema}\<close> and \<^verbatim>\<open>{query_str}\<close> slots replaced by the
  cached schema and the question.
\<close>

theorem generate_query_passes_prompt_and_arguments:
  "fst (generate_query self question w) =
     predict (llm_predictor (service_context self)) (graph_query_synthesis_prompt self)
       [(''query_str'', PyStr question), (''schema'', PyStr (graph_schema self))] \<and>
   new_calls w (snd (generate_query self question w)) =
     [Predict (graph_query_synthesis_prompt self)
        [(''query_str'', PyStr question), (''schema'', PyStr (graph_schema self))]] \<and>
   callback_manager (snd (generate_query self question w)) = callback_manager w \<and>
   fst (agenerate_query self question w) =
     apredict (llm_predictor (service_context self)) (graph_query_synthesis_prompt self)
       [(''query_str'', PyStr question), (''schema'', PyStr (graph_schema self))] \<and>
   new_calls w (snd (agenerate_query self question w)) =
     [APredict (graph_query_synthesis_prompt self)
        [(''query_str'', PyStr question), (''schema'', PyStr (graph_schema self))]] \<and>
   callback_manager (snd (agenerate_query self question w)) = callback_manager w \<and>
   (\<forall>gq. fst (generate_query self (query_str qb) w) = Inr gq \<longrightarrow>
      backend_queries (new_calls w (snd (engine_query self qb w))) = [gq]) \<and>
   (\<forall>e. fst (generate_query self (query_str qb) w) = Inl e \<longrightarrow>
      backend_queries (new_calls w (snd (engine_query self qb w))) = [] \<and>
      fst (engine_query self qb w) = Inl e) \<and>
   (\<forall>gq. fst (agenerate_query self (query_str qb) w) = Inr gq \<longrightarrow>
      backend_queries (new_calls w (snd (engine_aquery self qb w))) = [gq]) \<and>
   (\<forall>e. fst (agenerate_query self (query_str qb) w) = Inl e \<longrightarrow>
      backend_queries (new_calls w (snd (engine_aquery self qb w))) = [] \<and>
      fst (engine_aquery self qb w) = Inl e) \<and>
   (\<forall>llm.
      predict (llm_predictor (service_context self)) =
        (\<lambda>p kw. bind_err (Prompt_format p kw) llm) \<and>
      graph_query_synthesis_prompt self = DEFAULT_NEBULAGRAPH_NL2CYPHER_PROMPT \<longrightarrow>
      fst (generate_query self question w) =
        llm (''\<newline>'' @
     ''Generate NebulaGraph query from natural language.\<newline>'' @
     ''Use only the provided relationship types and properties in the schema.\<newline>'' @
     ''Do not use any other relationship types or properties that are not provided.\<newline>'' @
     ''Schema:\<newline>'' @
     ''---\<newline>'' @
     graph_schema self @ ''\<newline>'' @
     ''---\<newline>'' @
     ''Note: NebulaGraph speaks a dialect of Cypher, comparing to standard Cypher:\<newline>'' @
     ''\<newline>'' @
     ''1. it uses double equals sign for comparison: `==` rather than `=`\<newline>'' @
     ''2. it needs explicit label specification when referring to node properties, i.e.\<newline>'' @
     ''v is a variable of a node, and we know its label is Foo, v.`foo`.name is correct\<newline>'' @
     ''while v.name is not.\<newline>'' @
     ''\<newline>'' @
     ''For example, see this diff between standard and NebulaGraph Cypher dialect:\<newline>'' @
     ''```diff\<newline>'' @
     ''< MATCH (p:person)-[:directed]->(m:movie) WHERE m.name = 'The Godfather'\<newline>'' @
     ''< RETURN p.name;\<newline>'' @
     ''---\<newline>'' @
     ''> MATCH (p:`person`)-[:directed]->(m:`movie`) WHERE m.`movie`.`name` == 'The Godfather'\<newline>'' @
     ''> RETURN p.`person`.`name`;\<newline>'' @
     ''```\<newline>'' @
     ''\<newline>'' @
     ''Question: '' @ question @ ''\<newline>'' @
     ''\<newline>'' @
     ''NebulaGraph Cypher dialect query:\<newline>''))"
proof (intro conjI allI impI)
  show "fst (generate_query self question w) =
     predict (llm_predictor (service_context self)) (graph_query_synthesis_prompt self)
       (generation_args self question)"
    by (rule generate_query_result(1))
  show "fst (agenerate_query self question w) =
     apredict (llm_predictor (service_context self)) (graph_query_synthesis_prompt self)
       (generation_args self question)"
    by (rule generate_query_result(2))
  show "new_calls w (snd (generate_query self question w)) =
     [Predict (graph_query_synthesis_prompt self) (generation_args self question)]"
    by (simp add: generate_query_state log_call_def new_calls_def)
  show "new_calls w (snd (agenerate_query self question w)) =
     [APredict (graph_query_synthesis_prompt self) (generation_args self question)]"
    by (simp add: generate_query_state log_call_def new_calls_def)
  show "callback_manager (snd (generate_query self question w)) = callback_manager w"
    by (simp add: generate_query_state log_call_def)
  show "callback_manager (snd (agenerate_query self question w)) = callback_manager w"
    by (simp add: generate_query_state log_call_def)
next
  fix gq assume "fst (generate_query self (query_str qb) w) = Inr gq"
  then show "backend_queries (new_calls w (snd (engine_query self qb w))) = [gq]"
    by (simp add: backend_queries_query)
next
  fix e assume g: "fst (generate_query self (query_str qb) w) = Inl e"
  then show "backend_queries (new_calls w (snd (engine_query self qb w))) = []"
    by (simp add: backend_queries_query)
  from g show "fst (engine_query self qb w) = Inl e"
    by (rule engine_query_generation_error(1))
next
  fix gq assume "fst (agenerate_query self (query_str qb) w) = Inr gq"
  then show "backend_queries (new_calls w (snd (engine_aquery self qb w))) = [gq]"
    by (simp add: backend_queries_aquery)
next
  fix e assume g: "fst (agenerate_query self (query_str qb) w) = Inl e"
  then show "backend_queries (new_calls w (snd (engine_aquery self qb w))) = []"
    by (simp add: backend_queries_aquery)
  from g show "fst (engine_aquery self qb w) = Inl e"
    by (rule engine_aquery_generation_error(1))
next
  fix llm
  assume h: "predict (llm_predictor (service_context self)) =
        (\<lambda>p kw. bind_err (Prompt_format p kw) llm) \<and>
      graph_query_synthesis_prompt self = DEFAULT_NEBULAGRAPH_NL2CYPHER_PROMPT"
  have "fst (generate_query self question w) =
          bind_err (Prompt_format DEFAULT_NEBULAGRAPH_NL2CYPHER_PROMPT
                      (generation_args self question)) llm"
    using h by (simp add: generate_query_result(1))
  then show "fst (generate_query self question w) =
        llm (''\<newline>'' @
     ''Generate NebulaGraph query from natural language.\<newline>'' @
     ''Use only the provided relationship types and properties in the schema.\<newline>'' @
     ''Do not use any other relationship types or properties that are not provided.\<newline>'' @
     ''Schema:\<newline>'' @
     ''---\<newline>'' @
     graph_schema self @ ''\<newline>'' @
     ''---\<newline>'' @
     ''Note: NebulaGraph speaks a dialect of Cypher, comparing to standard Cypher:\<newline>'' @
     ''\<newline>'' @
     ''1. it uses double equals sign for comparison: `==` rather than `=`\<newline>'' @
     ''2. it needs explicit label specification when referring to node properties, i.e.\<newline>'' @
     ''v is a variable of a node, and we know its label is Foo, v.`foo`.name is correct\<newline>'' @
     ''while v.name is not.\<newline>'' @
     ''\<newline>'' @
     ''For example, see this diff between standard and NebulaGraph Cypher dialect:\<newline>'' @
     ''```diff\<newline>'' @
     ''< MATCH (p:person)-[:directed]->(m:movie) WHERE m.name = 'The Godfather'\<newline>'' @
     ''< RETURN p.name;\<newline>'' @
     ''---\<newline>'' @
     ''> MATCH (p:`person`)-[:directed]->(m:`movie`) WHERE m.`movie`.`name` == 'The Godfather'\<newline>'' @
     ''> RETURN p.`person`.`name`;\<newline>'' @
     ''```\<newline>'' @
     ''\<newline>'' @
     ''Question: '' @ question @ ''\<newline>'' @
     ''\<newline>'' @
     ''NebulaGraph Cypher dialect query:\<newline>'')"
    by (simp only: nebula_prompt_format bind_err_def sum.case)
qed

lemma echo_engine_fields:
  "graph_query_synthesis_prompt echo_engine = DEFAULT_NEBULAGRAPH_NL2CYPHER_PROMPT"
  "graph_schema echo_engine = ''(actor)-[:starred_in]->(movie)''"
  "predict (llm_predictor (service_context echo_engine)) p kw = Inr (template p)"
  "apredict (llm_predictor (service_context echo_engine)) p kw = Inr (template p)"
  "self_graph_store echo_engine = fixture_graph_store"
  by (simp_all add: echo_engine_def engine_of_def template_echo_predictor_def)

lemma formatting_engine_fields:
  "graph_query_synthesis_prompt formatting_engine = DEFAULT_NEBULAGRAPH_NL2CYPHER_PROMPT"
  "graph_schema formatting_engine = ''(actor)-[:starred_in]->(movie)''"
  "predict (llm_predictor (service_context formatting_engine)) =
     (\<lambda>p kw. bind_err (Prompt_format p kw)
               (\<lambda>filled. Inr (completion_text (complete \<lparr>max_tokens = None\<rparr> filled))))"
  by (simp_all add: formatting_engine_def engine_of_def formatting_predictor_def)

theorem generate_query_passes_prompt_and_arguments_witness:
  "fst (generate_query (engine_of fixture_graph_store) (query_str fixture_question) world0) =
     Inr fixture_query \<and>
   new_calls world0
     (snd (generate_query (engine_of fixture_graph_store) (query_str fixture_question) world0)) =
     [Predict DEFAULT_NEBULAGRAPH_NL2CYPHER_PROMPT
        [(''query_str'', PyStr ''Which actor starred in the movie X?''),
         (''schema'', PyStr ''(actor)-[:starred_in]->(movie)'')]] \<and>
   backend_queries (new_calls world0
     (snd (engine_query (engine_of fixture_graph_store) fixture_question world0))) =
     [fixture_query] \<and>
   backend_queries (new_calls world0
     (snd (engine_aquery (engine_of fixture_graph_store) fixture_question world0))) =
     [fixture_query] \<and>
   fst (generate_query formatting_engine ''Who?'' world0) =
     Inr (''\<newline>'' @
     ''Generate NebulaGraph query from natural language.\<newline>'' @
     ''Use only the provided relationship types and properties in the schema.\<newline>'' @
     ''Do not use any other relationship types or properties that are not provided.\<newline>'' @
     ''Schema:\<newline>'' @
     ''---\<newline>'' @
     ''(actor)-[:starred_in]->(movie)\<newline>'' @
     ''---\<newline>'' @
     ''Note: NebulaGraph speaks a dialect of Cypher, comparing to standard Cypher:\<newline>'' @
     ''\<newline>'' @
     ''1. it uses double equals sign for comparison: `==` rather than `=`\<newline>'' @
     ''2. it needs explicit label specification when referring to node properties, i.e.\<newline>'' @
     ''v is a variable of a node, and we know its label is Foo, v.`foo`.name is correct\<newline>'' @
     ''while v.name is not.\<newline>'' @
     ''\<newline>'' @
     ''For example, see this diff between standard and NebulaGraph Cypher dialect:\<newline>'' @
     ''```diff\<newline>'' @
     ''< MATCH (p:person)-[:directed]->(m:movie) WHERE m.name = 'The Godfather'\<newline>'' @
     ''< RETURN p.name;\<newline>'' @
     ''---\<newline>'' @
     ''> MATCH (p:`person`)-[:directed]->(m:`movie`) WHERE m.`movie`.`name` == 'The Godfather'\<newline>'' @
     ''> RETURN p.`person`.`name`;\<newline>'' @
     ''```\<newline>'' @
     ''\<newline>'' @
     ''Question: Who?\<newline>'' @
     ''\<newline>'' @
     ''NebulaGraph Cypher dialect query:\<newline>'')"
proof -
  have a: "fst (generate_query (engine_of fixture_graph_store) (query_str fixture_question) world0) =
     Inr fixture_query \<and>
   new_calls world0
     (snd (generate_query (engine_of fixture_graph_store) (query_str fixture_question) world0)) =
     [Predict DEFAULT_NEBULAGRAPH_NL2CYPHER_PROMPT
        [(''query_str'', PyStr ''Which actor starred in the movie X?''),
         (''schema'', PyStr ''(actor)-[:starred_in]->(movie)'')]] \<and>
   backend_queries (new_calls world0
     (snd (engine_query (engine_of fixture_graph_store) fixture_question world0))) =
     [fixture_query] \<and>
   backend_queries (new_calls world0
     (snd (engine_aquery (engine_of fixture_graph_store) fixture_question world0))) =
     [fixture_query]"
    using generate_query_passes_prompt_and_arguments
        [of "engine_of fixture_graph_store" "query_str fixture_question" world0 fixture_question]
      fixture_run(1) [of world0] fixture_run(2) [of world0] fixture_run(7,8)
    by (simp add: fixture_question_def)
  from generate_query_passes_prompt_and_arguments
        [of formatting_engine "''Who?''" world0 fixture_question]
  have "\<forall>llm.
      predict (llm_predictor (service_context formatting_engine)) =
        (\<lambda>p kw. bind_err (Prompt_format p kw) llm) \<and>
      graph_query_synthesis_prompt formatting_engine = DEFAULT_NEBULAGRAPH_NL2CYPHER_PROMPT \<longrightarrow>
      fst (generate_query formatting_engine ''Who?'' world0) =
        llm (''\<newline>'' @
     ''Generate NebulaGraph query from natural language.\<newline>'' @
     ''Use only the provided relationship types and properties in the schema.\<newline>'' @
     ''Do not use any other relationship types or properties that are not provided.\<newline>'' @
     ''Schema:\<newline>'' @
     ''---\<newline>'' @
     graph_schema formatting_engine @ ''\<newline>'' @
     ''---\<newline>'' @
     ''Note: NebulaGraph speaks a dialect of Cypher, comparing to standard Cypher:\<newline>'' @
     ''\<newline>'' @
     ''1. it uses double equals sign for comparison: `==` rather than `=`\<newline>'' @
     ''2. it needs explicit label specification when referring to node properties, i.e.\<newline>'' @
     ''v is a variable of a node, and we know its label is Foo, v.`foo`.name is correct\<newline>'' @
     ''while v.name is not.\<newline>'' @
     ''\<newline>'' @
     ''For example, see this diff between standard and NebulaGraph Cypher dialect:\<newline>'' @
     ''```diff\<newline>'' @
     ''< MATCH (p:person)-[:directed]->(m:movie) WHERE m.name = 'The Godfather'\<newline>'' @
     ''< RETURN p.name;\<newline>'' @
     ''---\<newline>'' @
     ''> MATCH (p:`person`)-[:directed]->(m:`movie`) WHERE m.`movie`.`name` == 'The Godfather'\<newline>'' @
     ''> RETURN p.`person`.`name`;\<newline>'' @
     ''```\<newline>'' @
     ''\<newline>'' @
     ''Question: '' @ ''Who?'' @ ''\<newline>'' @
     ''\<newline>'' @
     ''NebulaGraph Cypher dialect query:\<newline>'')"
    by blast
  from this [rule_format, OF conjI, OF formatting_engine_fields(3) formatting_engine_fields(1)]
  have b: "fst (generate_query formatting_engine ''Who?'' world0) =
     Inr (completion_text (complete \<lparr>max_tokens = None\<rparr> (''\<newline>'' @
     ''Generate NebulaGraph query from natural language.\<newline>'' @
     ''Use only the provided relationship types and properties in the schema.\<newline>'' @
     ''Do not use any other relationship types or properties that are not provided.\<newline>'' @
     ''Schema:\<newline>'' @
     ''---\<newline>'' @
     graph_schema formatting_engine @ ''\<newline>'' @
     ''---\<newline>'' @
     ''Note: NebulaGraph speaks a dialect of Cypher, comparing to standard Cypher:\<newline>'' @
     ''\<newline>'' @
     ''1. it uses double equals sign for comparison: `==` rather than `=`\<newline>'' @
     ''2. it needs explicit label specification when referring to node properties, i.e.\<newline>'' @
     ''v is a variable of a node, and we know its label is Foo, v.`foo`.name is correct\<newline>'' @
     ''while v.name is not.\<newline>'' @
     ''\<newline>'' @
     ''For example, see this diff between standard and NebulaGraph Cypher dialect:\<newline>'' @
     ''```diff\<newline>'' @
     ''< MATCH (p:person)-[:directed]->(m:movie) WHERE m.name = 'The Godfather'\<newline>'' @
     ''< RETURN p.name;\<newline>'' @
     ''---\<newline>'' @
     ''> MATCH (p:`person`)-[:directed]->(m:`movie`) WHERE m.`movie`.`name` == 'The Godfather'\<newline>'' @
     ''> RETURN p.`person`.`name`;\<newline>'' @
     ''```\<newline>'' @
     ''\<newline>'' @
     ''Question: '' @ ''Who?'' @ ''\<newline>'' @
     ''\<newline>'' @
     ''NebulaGraph Cypher dialect query:\<newline>'')))" .
  from a b show ?thesis
    by (simp add: formatting_engine_fields(2) complete_def)
qed

text \<open>
  C7 as stated fails: the completion capability is not invoked on a filled prompt. A
  capability that returns the template of the prompt object it receives makes
  \<^verbatim>\<open>generate_query\<close> return the template with both slots still in it, which is not the
  filled prompt.
\<close>

theorem generate_query_unfilled_prompt_counterexample:
  "fst (generate_query echo_engine ''Which actor starred in the movie X?'' world0) =
     Inr DEFAULT_NEBULAGRAPH_NL2CYPHER_PROMPT_TMPL \<and>
   calls (snd (generate_query echo_engine ''Which actor starred in the movie X?'' world0)) =
     [Predict \<lparr>template = DEFAULT_NEBULAGRAPH_NL2CYPHER_PROMPT_TMPL,
              prompt_type = TEXT_TO_GRAPH_QUERY, partial_dict = []\<rparr>
        [(''query_str'', PyStr ''Which actor starred in the movie X?''),
         (''schema'', PyStr ''(actor)-[:starred_in]->(movie)'')]] \<and>
   Prompt_format DEFAULT_NEBULAGRAPH_NL2CYPHER_PROMPT
     [(''query_str'', PyStr ''Which actor starred in the movie X?''),
      (''schema'', PyStr ''(actor)-[:starred_in]->(movie)'')] \<noteq>
     Inr DEFAULT_NEBULAGRAPH_NL2CYPHER_PROMPT_TMPL"
proof -
  have a: "fst (generate_query echo_engine ''Which actor starred in the movie X?'' world0) =
             Inr DEFAULT_NEBULAGRAPH_NL2CYPHER_PROMPT_TMPL"
    by (simp add: generate_query_result(1) echo_engine_fields
          DEFAULT_NEBULAGRAPH_NL2CYPHER_PROMPT_def)
  have b: "calls (snd (generate_query echo_engine ''Which actor starred in the movie X?'' world0)) =
     [Predict \<lparr>template = DEFAULT_NEBULAGRAPH_NL2CYPHER_PROMPT_TMPL,
              prompt_type = TEXT_TO_GRAPH_QUERY, partial_dict = []\<rparr>
        [(''query_str'', PyStr ''Which actor starred in the movie X?''),
         (''schema'', PyStr ''(actor)-[:starred_in]->(movie)'')]]"
    by (simp add: generate_query_state log_call_def echo_engine_fields world0_def
          DEFAULT_NEBULAGRAPH_NL2CYPHER_PROMPT_def)
  have c: "Prompt_format DEFAULT_NEBULAGRAPH_NL2CYPHER_PROMPT
     [(''query_str'', PyStr ''Which actor starred in the movie X?''),
      (''schema'', PyStr ''(actor)-[:starred_in]->(movie)'')] \<noteq>
     Inr DEFAULT_NEBULAGRAPH_NL2CYPHER_PROMPT_TMPL"
    by (simp add: nebula_prompt_format DEFAULT_NEBULAGRAPH_NL2CYPHER_PROMPT_TMPL_def)
  from a b c show ?thesis by blast
qed

subsection \<open>Construction and the schema\<close>

lemma init_success:
  assumes "KnowledgeGraphQueryEngine_init env service_ctx storage_ctx query_synthesis_prompt
             response_answer_prompt refresh_schema verb synthesizer w = (Inr self, w')"
  shows "w' = log_call (GetSchema refresh_schema) w"
    and "get_schema (self_graph_store self) refresh_schema = Inr (graph_schema self)"
    and "storage_ctx = Some (storage_context self)"
    and "graph_store (storage_context self) = Some (self_graph_store self)"
    and "map_of (GRAPH_STORE_CLASS_TO_GRAPH_STORE_TYPE env) (store_class (self_graph_store self)) =
           Some (graph_store_type self)"
    and "query_synthesis_prompt = Some (graph_query_synthesis_prompt self) \<or>
         query_synthesis_prompt = None \<and>
         map_of DEFAULT_NL2GRAPH_PROMPT_MAP (graph_store_type self) =
           Some (graph_query_synthesis_prompt self)"
  using assms
  by (auto simp: KnowledgeGraphQueryEngine_init_def Let_def
           split: option.splits sum.splits)

lemma init_returns:
  assumes "storage_ctx = Some sc" and "graph_store sc = Some gs"
    and "map_of (GRAPH_STORE_CLASS_TO_GRAPH_STORE_TYPE env) (store_class gs) = Some gst"
    and "get_schema gs refresh_schema = Inr schema"
    and "query_synthesis_prompt = Some p \<or>
         query_synthesis_prompt = None \<and> map_of DEFAULT_NL2GRAPH_PROMPT_MAP gst = Some p"
  shows "\<exists>self.
           KnowledgeGraphQueryEngine_init env service_ctx storage_ctx query_synthesis_prompt
             response_answer_prompt refresh_schema verb synthesizer w =
             (Inr self, log_call (GetSchema refresh_schema) w) \<and>
           self_graph_store self = gs \<and> graph_schema self = schema \<and>
           graph_query_synthesis_prompt self = p"
  using assms
  by (auto simp: KnowledgeGraphQueryEngine_init_def Let_def)

lemma schema_fetches_append:
  "schema_fetches (xs @ ys) = schema_fetches xs @ schema_fetches ys"
  by (induction xs rule: schema_fetches.induct) simp_all

lemma observed_schemas_append:
  "observed_schemas (xs @ ys) = observed_schemas xs @ observed_schemas ys"
  by (induction xs rule: observed_schemas.induct) simp_all

text \<open>A call appends to the log, fetches no schema and hands on the engine's schema only.\<close>

lemma call_engine_log:
  "\<exists>ys. calls (call_engine self c w) = calls w @ ys \<and> schema_kept self ys"
proof (cases c)
  case (CallQuery qb)
  show ?thesis
  proof (cases rule: engine_query_cases [of self qb w])
    case (generation_error e)
    then show ?thesis
      unfolding CallQuery by (simp add: engine_defs schema_kept_def)
  next
    case (backend_error gq e)
    then show ?thesis
      unfolding CallQuery by (simp add: engine_defs schema_kept_def)
  next
    case (format_error gq resp e)
    then show ?thesis
      unfolding CallQuery by (simp add: engine_defs schema_kept_def)
  next
    case (synthesis gq resp filled)
    then show ?thesis
      unfolding CallQuery by (simp add: engine_defs schema_kept_def split: sum.splits)
  qed
next
  case (CallAQuery qb)
  show ?thesis
  proof (cases rule: engine_aquery_cases [of self qb w])
    case (generation_error e)
    then show ?thesis
      unfolding CallAQuery by (simp add: engine_defs schema_kept_def)
  next
    case (backend_error gq e)
    then show ?thesis
      unfolding CallAQuery by (simp add: engine_defs schema_kept_def)
  next
    case (format_error gq resp e)
    then show ?thesis
      unfolding CallAQuery by (simp add: engine_defs schema_kept_def)
  next
    case (synthesis gq resp filled)
    then show ?thesis
      unfolding CallAQuery by (simp add: engine_defs schema_kept_def split: sum.splits)
  qed
next
  case (CallGenerateQuery qs)
  then show ?thesis
    by (simp add: generate_query_def log_call_def Let_def schema_kept_def)
next
  case (CallAGenerateQuery qs)
  then show ?thesis
    by (simp add: agenerate_query_def log_call_def Let_def schema_kept_def)
qed

lemma schema_kept_append:
  "schema_kept self xs \<Longrightarrow> schema_kept self ys \<Longrightarrow> schema_kept self (xs @ ys)"
  by (auto simp: schema_kept_def schema_fetches_append observed_schemas_append)

lemma run_calls_log:
  "\<exists>ys. calls (run_calls self cs w) = calls w @ ys \<and> schema_kept self ys"
proof (induction cs arbitrary: w)
  case Nil
  show ?case by (simp add: schema_kept_def)
next
  case (Cons c cs)
  from call_engine_log [of self c w] obtain xs where
    xs: "calls (call_engine self c w) = calls w @ xs" "schema_kept self xs"
    by blast
  from Cons.IH [of "call_engine self c w"] obtain ys where
    ys: "calls (run_calls self cs (call_engine self c w)) = calls (call_engine self c w) @ ys"
      "schema_kept self ys"
    by blast
  from xs ys have "calls (run_calls self (c # cs) w) = calls w @ (xs @ ys)"
    by simp
  with schema_kept_append [OF xs(2) ys(2)] show ?case
    by blast
qed

lemma run_after_init:
  assumes "KnowledgeGraphQueryEngine_init env service_ctx storage_ctx query_synthesis_prompt
             response_answer_prompt refresh_schema verb synthesizer w = (Inr self, w')"
  shows "schema_fetches (new_calls w (run_calls self cs w')) = [refresh_schema]"
    and "\<forall>v \<in> set (observed_schemas (new_calls w (run_calls self cs w'))).
           v = Some (PyStr (graph_schema self))"
proof -
  from init_success(1) [OF assms] have w': "calls w' = calls w @ [GetSchema refresh_schema]"
    by (simp add: log_call_def)
  from run_calls_log [of self cs w'] obtain ys where
    ys: "calls (run_calls self cs w') = calls w' @ ys" "schema_kept self ys"
    by blast
  from w' ys(1) have n: "new_calls w (run_calls self cs w') = GetSchema refresh_schema # ys"
    by (simp add: new_calls_def)
  from ys(2) show "schema_fetches (new_calls w (run_calls self cs w')) = [refresh_schema]"
    unfolding n by (simp add: schema_kept_def)
  from ys(2) show "\<forall>v \<in> set (observed_schemas (new_calls w (run_calls self cs w'))).
           v = Some (PyStr (graph_schema self))"
    unfolding n by (simp add: schema_kept_def)
qed

text \<open>
  C8. A construction that returns an engine has called \<^verbatim>\<open>get_schema\<close> exactly once, on
  the graph store of the storage context it was given and with the \<^verbatim>\<open>refresh_schema\<close> flag
  as given, and the engine's schema is what that call returned; and whenever that store is
  registered, returns a schema and a synthesis prompt is available, the construction does
  return such an engine. After construction, any sequence of calls of \<^verbatim>\<open>_query\<close>,
  \<^verbatim>\<open>_aquery\<close>, \<^verbatim>\<open>generate_query\<close> and \<^verbatim>\<open>agenerate_query\<close> on the engine fetches no schema
  again (the construction's fetch stays the only one), and every schema value handed to the
  completion capability or put into the metadata of an evidence unit is the schema of the
  construction.
\<close>

theorem schema_fetched_once_at_construction:
  "(\<forall>self w'.
      KnowledgeGraphQueryEngine_init env service_ctx storage_ctx query_synthesis_prompt
        response_answer_prompt refresh_schema verb synthesizer w = (Inr self, w') \<longrightarrow>
      (\<exists>sc. storage_ctx = Some sc \<and> graph_store sc = Some (self_graph_store self)) \<and>
      get_schema (self_graph_store self) refresh_schema = Inr (graph_schema self) \<and>
      new_calls w w' = [GetSchema refresh_schema] \<and>
      (\<forall>cs. schema_fetches (new_calls w (run_calls self cs w')) = [refresh_schema] \<and>
            (\<forall>v \<in> set (observed_schemas (new_calls w (run_calls self cs w'))).
               v = Some (PyStr (graph_schema self))))) \<and>
   (\<forall>sc gs gst schema p.
      storage_ctx = Some sc \<and> graph_store sc = Some gs \<and>
      map_of (GRAPH_STORE_CLASS_TO_GRAPH_STORE_TYPE env) (store_class gs) = Some gst \<and>
      get_schema gs refresh_schema = Inr schema \<and>
      (query_synthesis_prompt = Some p \<or>
       query_synthesis_prompt = None \<and> map_of DEFAULT_NL2GRAPH_PROMPT_MAP gst = Some p) \<longrightarrow>
      (\<exists>self.
         KnowledgeGraphQueryEngine_init env service_ctx storage_ctx query_synthesis_prompt
           response_answer_prompt refresh_schema verb synthesizer w =
           (Inr self, log_call (GetSchema refresh_schema) w) \<and>
         self_graph_store self = gs \<and> graph_schema self = schema)) \<and>
   observed_schemas (new_calls w (snd (engine_query self0 qb w))) =
     (case fst (generate_query self0 (query_str qb) w) of
        Inl e \<Rightarrow> [Some (PyStr (graph_schema self0))]
      | Inr gq \<Rightarrow>
          Some (PyStr (graph_schema self0)) #
          map (\<lambda>n. Some (PyStr (graph_schema self0)))
            (synthesized_nodes (new_calls w (snd (engine_query self0 qb w)))))"
proof (intro conjI allI impI)
  fix self w'
  assume i: "KnowledgeGraphQueryEngine_init env service_ctx storage_ctx query_synthesis_prompt
        response_answer_prompt refresh_schema verb synthesizer w = (Inr self, w')"
  from init_success(3,4) [OF i]
  show "\<exists>sc. storage_ctx = Some sc \<and> graph_store sc = Some (self_graph_store self)"
    by blast
  from init_success(2) [OF i]
  show "get_schema (self_graph_store self) refresh_schema = Inr (graph_schema self)" .
  from init_success(1) [OF i] show "new_calls w w' = [GetSchema refresh_schema]"
    by (simp add: new_calls_def log_call_def)
  fix cs
  from run_after_init(1) [OF i]
  show "schema_fetches (new_calls w (run_calls self cs w')) = [refresh_schema]" .
  from run_after_init(2) [OF i]
  show "\<forall>v \<in> set (observed_schemas (new_calls w (run_calls self cs w'))).
           v = Some (PyStr (graph_schema self))" .
next
  fix sc gs gst schema p
  assume "storage_ctx = Some sc \<and> graph_store sc = Some gs \<and>
      map_of (GRAPH_STORE_CLASS_TO_GRAPH_STORE_TYPE env) (store_class gs) = Some gst \<and>
      get_schema gs refresh_schema = Inr schema \<and>
      (query_synthesis_prompt = Some p \<or>
       query_synthesis_prompt = None \<and> map_of DEFAULT_NL2GRAPH_PROMPT_MAP gst = Some p)"
  then have "\<exists>self.
           KnowledgeGraphQueryEngine_init env service_ctx storage_ctx query_synthesis_prompt
             response_answer_prompt refresh_schema verb synthesizer w =
             (Inr self, log_call (GetSchema refresh_schema) w) \<and>
           self_graph_store self = gs \<and> graph_schema self = schema \<and>
           graph_query_synthesis_prompt self = p"
    by (intro init_returns) blast+
  then show "\<exists>self.
         KnowledgeGraphQueryEngine_init env service_ctx storage_ctx query_synthesis_prompt
           response_answer_prompt refresh_schema verb synthesizer w =
           (Inr self, log_call (GetSchema refresh_schema) w) \<and>
         self_graph_store self = gs \<and> graph_schema self = schema"
    by blast
next
  show "observed_schemas (new_calls w (snd (engine_query self0 qb w))) =
     (case fst (generate_query self0 (query_str qb) w) of
        Inl e \<Rightarrow> [Some (PyStr (graph_schema self0))]
      | Inr gq \<Rightarrow>
          Some (PyStr (graph_schema self0)) #
          map (\<lambda>n. Some (PyStr (graph_schema self0)))
            (synthesized_nodes (new_calls w (snd (engine_query self0 qb w)))))"
  proof (cases rule: engine_query_cases [of self0 qb w])
    case (generation_error e)
    then show ?thesis by (simp add: engine_query_generation_error(3))
  next
    case (backend_error gq e)
    then show ?thesis by (simp add: engine_query_backend_error(3))
  next
    case (format_error gq resp e)
    then show ?thesis by (simp add: engine_query_format_error(3))
  next
    case (synthesis gq resp filled)
    then show ?thesis by (simp add: engine_query_synthesis(2))
  qed
qed

lemma fixture_init:
  "KnowledgeGraphQueryEngine_init fixture_env None (Some \<lparr>graph_store = Some fixture_graph_store\<rparr>)
     None None True False None world0 =
   (Inr (engine_of fixture_graph_store), log_call (GetSchema True) world0)"
  by (simp add: KnowledgeGraphQueryEngine_init_def fixture_env_def engine_of_def
        fixture_graph_store_def DEFAULT_NL2GRAPH_PROMPT_MAP_def Let_def)

lemma fixture_sequence:
  "observed_schemas (new_calls world0
     (run_calls (engine_of fixture_graph_store)
        [CallQuery fixture_question, CallAQuery fixture_question,
         CallGenerateQuery ''Who directed the movie X?'']
        (log_call (GetSchema True) world0))) =
   [Some (PyStr ''(actor)-[:starred_in]->(movie)''),
    Some (PyStr ''(actor)-[:starred_in]->(movie)''),
    Some (PyStr ''(actor)-[:starred_in]->(movie)''),
    Some (PyStr ''(actor)-[:starred_in]->(movie)''),
    Some (PyStr ''(actor)-[:starred_in]->(movie)'')]"
  by (simp add: engine_defs fixture_defs answer_prompt_format)

theorem schema_fetched_once_at_construction_witness:
  "KnowledgeGraphQueryEngine_init fixture_env None (Some \<lparr>graph_store = Some fixture_graph_store\<rparr>)
     None None True False None world0 =
     (Inr (engine_of fixture_graph_store), log_call (GetSchema True) world0) \<and>
   self_graph_store (engine_of fixture_graph_store) = fixture_graph_store \<and>
   get_schema fixture_graph_store True = Inr ''(actor)-[:starred_in]->(movie)'' \<and>
   new_calls world0 (log_call (GetSchema True) world0) = [GetSchema True] \<and>
   schema_fetches (new_calls world0
     (run_calls (engine_of fixture_graph_store)
        [CallQuery fixture_question, CallAQuery fixture_question,
         CallGenerateQuery ''Who directed the movie X?'']
        (log_call (GetSchema True) world0))) = [True] \<and>
   observed_schemas (new_calls world0
     (run_calls (engine_of fixture_graph_store)
        [CallQuery fixture_question, CallAQuery fixture_question,
         CallGenerateQuery ''Who directed the movie X?'']
        (log_call (GetSchema True) world0))) =
   [Some (PyStr ''(actor)-[:starred_in]->(movie)''),
    Some (PyStr ''(actor)-[:starred_in]->(movie)''),
    Some (PyStr ''(actor)-[:starred_in]->(movie)''),
    Some (PyStr ''(actor)-[:starred_in]->(movie)''),
    Some (PyStr ''(actor)-[:starred_in]->(movie)'')]"
proof -
  from schema_fetched_once_at_construction
      [of fixture_env None "Some \<lparr>graph_store = Some fixture_graph_store\<rparr>" None None True False
          None world0 "engine_of fixture_graph_store" fixture_question]
    fixture_init
  have "get_schema (self_graph_store (engine_of fixture_graph_store)) True =
          Inr (graph_schema (engine_of fixture_graph_store))"
    and "new_calls world0 (log_call (GetSchema True) world0) = [GetSchema True]"
    and "schema_fetches (new_calls world0
     (run_calls (engine_of fixture_graph_store)
        [CallQuery fixture_question, CallAQuery fixture_question,
         CallGenerateQuery ''Who directed the movie X?'']
        (log_call (GetSchema True) world0))) = [True]"
    by blast+
  then show ?thesis
    using fixture_init fixture_sequence
    by (simp add: fixture_run(8) engine_of_def)
qed


subsection \<open>Construction errors\<close>






section \<open>Properties of the mock predictor\<close>

lemma predict_unhandled:
  assumes "prompt_type prompt \<notin> handled_prompt_types"
  shows "fst (MockLLMPredictor_predict h self prompt prompt_args) =
           (case Prompt_format prompt prompt_args of
              Inl e \<Rightarrow> Inl e
            | Inr formatted_prompt \<Rightarrow> Inl (ValueError ''Invalid prompt type.''))"
  using assms
  by (simp add: MockLLMPredictor_predict_def handled_prompt_types_def Let_def
           split: prod.splits sum.splits)

lemma predict_handled_custom:
  assumes "prompt_type prompt = CUSTOM" and "Prompt_format prompt prompt_args = Inr formatted_prompt"
  shows "fst (MockLLMPredictor_predict h self prompt prompt_args) = Inr []"
  using assms
  by (simp add: MockLLMPredictor_predict_def Let_def split: prod.splits)

text \<open>
  C9 (as amended). For a prompt whose type is outside the handled set,
  \<^verbatim>\<open>MockLLMPredictor.predict\<close> never returns a string: it raises
  \<^verbatim>\<open>ValueError("Invalid prompt type.")\<close> whenever formatting the prompt with the given
  arguments succeeds, and otherwise the formatting error, which comes first.
  \<^verbatim>\<open>apredict\<close> behaves as \<^verbatim>\<open>predict\<close> for every prompt and arguments, result and
  predictor state alike.
\<close>

theorem MockLLMPredictor_unknown_prompt_type:
  "(prompt_type prompt \<notin> handled_prompt_types \<longrightarrow>
      isl (fst (MockLLMPredictor_predict h self prompt prompt_args)) \<and>
      (\<forall>formatted_prompt. Prompt_format prompt prompt_args = Inr formatted_prompt \<longrightarrow>
         fst (MockLLMPredictor_predict h self prompt prompt_args) =
           Inl (ValueError ''Invalid prompt type.'')) \<and>
      (\<forall>e. Prompt_format prompt prompt_args = Inl e \<longrightarrow>
         fst (MockLLMPredictor_predict h self prompt prompt_args) = Inl e)) \<and>
   MockLLMPredictor_apredict h self prompt prompt_args =
     MockLLMPredictor_predict h self prompt prompt_args"
  by (auto simp: predict_unhandled MockLLMPredictor_apredict_def split: sum.splits)

theorem MockLLMPredictor_unknown_prompt_type_witness:
  "prompt_type DEFAULT_NEBULAGRAPH_NL2CYPHER_PROMPT \<notin> handled_prompt_types \<and>
   fst (MockLLMPredictor_predict fixture_helpers fixture_mock_predictor
          DEFAULT_NEBULAGRAPH_NL2CYPHER_PROMPT
          [(''query_str'', PyStr ''Which actor starred in the movie X?''),
           (''schema'', PyStr ''(actor)-[:starred_in]->(movie)'')]) =
     Inl (ValueError ''Invalid prompt type.'') \<and>
   MockLLMPredictor_apredict fixture_helpers fixture_mock_predictor
          DEFAULT_NEBULAGRAPH_NL2CYPHER_PROMPT
          [(''query_str'', PyStr ''Which actor starred in the movie X?''),
           (''schema'', PyStr ''(actor)-[:starred_in]->(movie)'')] =
     MockLLMPredictor_predict fixture_helpers fixture_mock_predictor
          DEFAULT_NEBULAGRAPH_NL2CYPHER_PROMPT
          [(''query_str'', PyStr ''Which actor starred in the movie X?''),
           (''schema'', PyStr ''(actor)-[:starred_in]->(movie)'')]"
proof -
  have t: "prompt_type DEFAULT_NEBULAGRAPH_NL2CYPHER_PROMPT \<notin> handled_prompt_types"
    by (simp add: DEFAULT_NEBULAGRAPH_NL2CYPHER_PROMPT_def handled_prompt_types_def)
  show ?thesis
    using MockLLMPredictor_unknown_prompt_type
        [of DEFAULT_NEBULAGRAPH_NL2CYPHER_PROMPT fixture_helpers fixture_mock_predictor
            "[(''query_str'', PyStr ''Which actor starred in the movie X?''),
              (''schema'', PyStr ''(actor)-[:starred_in]->(movie)'')]"]
      t nebula_prompt_format
        [of "''Which actor starred in the movie X?''" "''(actor)-[:starred_in]->(movie)''"]
    by simp
qed

text \<open>
  C9 as stated fails: the default Nebula prompt has an unhandled type, and calling
  \<^verbatim>\<open>predict\<close> on it without the \<^verbatim>\<open>schema\<close> argument raises \<^verbatim>\<open>KeyError\<close>, not
  \<^verbatim>\<open>ValueError\<close>.
\<close>

theorem MockLLMPredictor_format_error_counterexample:
  "prompt_type DEFAULT_NEBULAGRAPH_NL2CYPHER_PROMPT \<notin> handled_prompt_types \<and>
   fst (MockLLMPredictor_predict fixture_helpers fixture_mock_predictor
          DEFAULT_NEBULAGRAPH_NL2CYPHER_PROMPT
          [(''query_str'', PyStr ''Which actor starred in the movie X?'')]) =
     Inl (KeyError ''schema'') \<and>
   KeyError ''schema'' \<noteq> ValueError ''Invalid prompt type.''"
proof -
  have t: "prompt_type DEFAULT_NEBULAGRAPH_NL2CYPHER_PROMPT \<notin> handled_prompt_types"
    by (simp add: DEFAULT_NEBULAGRAPH_NL2CYPHER_PROMPT_def handled_prompt_types_def)
  show ?thesis
    using t predict_unhandled [OF t, of fixture_helpers fixture_mock_predictor
        "[(''query_str'', PyStr ''Which actor starred in the movie X?'')]"]
      nebula_missing_schema [of "''Which actor starred in the movie X?''"]
    by simp
qed

end
